theory Spec2Isabelle
  imports
    Complex_Main
    "HOL-Library.Char_ord"
    "HOL-Library.List_Lexorder"
    "HOL-Library.Product_Lexorder"
    "HOL-Library.Sublist"
begin

section \<open>Bakery market basket analysis: the counting engine of \<^verbatim>\<open>app.py\<close>\<close>

text \<open>
  The program loads a table of purchases into a pandas data frame and derives item
  frequencies, co-occurrence counts of item pairs, rankings of both, an average basket
  size and a segment-by-item pivot table. The embedding follows \<^verbatim>\<open>app.py\<close>
  function by function. Library calls are modelled by what they compute on well-typed
  data:
  \<^item> a data frame is the list of its rows, in row order; the three columns the engine
    reads are \<^verbatim>\<open>TransactionNo\<close>, \<^verbatim>\<open>Items\<close> and \<^verbatim>\<open>Daypart\<close>. Every cell holds
    a value; frames with missing cells (pandas' NaN) have definitions of their own,
    further down, which agree with these on frames without missing cells;
  \<^item> item and segment labels are strings, compared as Python compares \<^verbatim>\<open>str\<close>:
    lexicographically, character by character;
  \<^item> a \<^verbatim>\<open>Counter\<close> is a \<^verbatim>\<open>dict\<close>, which keeps its keys in order of first
    insertion: an association list with distinct keys, new keys appended at the end;
  \<^item> Python's \<^verbatim>\<open>int\<close> is \<^typ>\<open>int\<close>; the one true division of the program
    (the average basket size) is taken in \<^typ>\<open>real\<close>, of which Python's \<^verbatim>\<open>float\<close>
    is the nearest double;
  \<^item> an exception is a value of \<open>py_error\<close>, returned in place of the result.
\<close>

subsection \<open>Exceptions\<close>

datatype py_error = ZeroDivisionError | TypeError

text \<open>\<^verbatim>\<open>a / b\<close> on two \<^verbatim>\<open>int\<close>s: the quotient as a \<^verbatim>\<open>float\<close>, and
  \<^verbatim>\<open>ZeroDivisionError\<close> when \<open>b\<close> is 0.\<close>

definition truediv :: "int \<Rightarrow> int \<Rightarrow> py_error + real" where
  "truediv a b = (if b = 0 then Inl ZeroDivisionError else Inr (real_of_int a / real_of_int b))"

subsection \<open>Rows and counters\<close>

record 't row =
  TransactionNo :: 't
  Items :: string
  Daypart :: string

type_synonym 'k counter = "('k \<times> int) list"

text \<open>\<^verbatim>\<open>counter[k] += 1\<close>: a present key keeps its position, a new key is appended
  with count \<open>0 + 1\<close>.\<close>

fun incr :: "'k counter \<Rightarrow> 'k \<Rightarrow> 'k counter" where
  "incr [] k = [(k, 1)]"
| "incr ((k', c) # kcs) k =
     (if k' = k then (k', c + 1) # kcs else (k', c) # incr kcs k)"

text \<open>\<^verbatim>\<open>counter[k]\<close>: a missing key reads as 0.\<close>

definition count_of :: "'k counter \<Rightarrow> 'k \<Rightarrow> int" where
  "count_of pc k = (case map_of pc k of None \<Rightarrow> 0 | Some c \<Rightarrow> c)"

text \<open>\<^verbatim>\<open>itertools.combinations(xs, 2)\<close>: the pairs \<open>(xs[i], xs[j])\<close> with \<open>i < j\<close>,
  in lexicographic order of the index pairs.\<close>

fun combinations2 :: "'a list \<Rightarrow> ('a \<times> 'a) list" where
  "combinations2 [] = []"
| "combinations2 (x # xs) = map (Pair x) xs @ combinations2 xs"

subsection \<open>\<^verbatim>\<open>get_item_pairs\<close> (lines 26 to 47)\<close>

text \<open>Lines 28 to 34. A filter applies when the argument is truthy (neither
  \<^verbatim>\<open>None\<close> nor the empty list) and has positive length; \<^verbatim>\<open>isin\<close> keeps the rows
  whose cell is a member of the list.\<close>

definition filter_rows ::
  "'t row list \<Rightarrow> string list option \<Rightarrow> string list option \<Rightarrow> 't row list" where
  "filter_rows df daypart_filter items_filter =
     (let filtered_df = df;
          filtered_df =
            (case daypart_filter of
               None \<Rightarrow> filtered_df
             | Some dps \<Rightarrow>
                 if dps \<noteq> [] \<and> length dps > 0
                 then filter (\<lambda>r. Daypart r \<in> set dps) filtered_df
                 else filtered_df);
          filtered_df =
            (case items_filter of
               None \<Rightarrow> filtered_df
             | Some its \<Rightarrow>
                 if its \<noteq> [] \<and> length its > 0
                 then filter (\<lambda>r. Items r \<in> set its) filtered_df
                 else filtered_df)
      in filtered_df)"

text \<open>Line 37, \<^verbatim>\<open>groupby('TransactionNo')['Items'].apply(list)\<close>: a series indexed by
  the distinct transaction numbers in ascending order (\<^verbatim>\<open>groupby\<close> sorts its keys),
  each holding the items of that transaction's rows in row order.\<close>

definition groupby_items :: "('t::linorder) row list \<Rightarrow> ('t \<times> string list) list" where
  "groupby_items filtered_df =
     map (\<lambda>t. (t, map Items (filter (\<lambda>r. TransactionNo r = t) filtered_df)))
       (sort (remdups (map TransactionNo filtered_df)))"

text \<open>Lines 42 to 45, the body of the loop over the transactions.
  \<^verbatim>\<open>list(set(items))\<close> lists the distinct items in an order Python does not fix;
  only its length and its sorted copy are used, and both depend on the set alone.\<close>

definition add_basket :: "(string \<times> string) counter \<Rightarrow> string list \<Rightarrow> (string \<times> string) counter" where
  "add_basket pair_counter items =
     (let unique_items = remdups items
      in if length unique_items \<ge> 2
         then foldl incr pair_counter (combinations2 (sort unique_items))
         else pair_counter)"

text \<open>Lines 40 to 47: iterating the series visits its values in index order.\<close>

definition count_pairs :: "('t \<times> string list) list \<Rightarrow> (string \<times> string) counter" where
  "count_pairs transactions = foldl add_basket [] (map snd transactions)"

definition get_item_pairs ::
  "('t::linorder) row list \<Rightarrow> string list option \<Rightarrow> string list option
     \<Rightarrow> (string \<times> string) counter" where
  "get_item_pairs df daypart_filter items_filter =
     count_pairs (groupby_items (filter_rows df daypart_filter items_filter))"

subsection \<open>Rankings\<close>

text \<open>\<^verbatim>\<open>sorted(entries, key=itemgetter(1), reverse=True)\<close>: Python's sort is stable,
  also with \<^verbatim>\<open>reverse=True\<close>, so entries of equal count keep their relative order.\<close>

definition sorted_desc :: "'k counter \<Rightarrow> 'k counter" where
  "sorted_desc pc = sort_key (\<lambda>e. - snd e) pc"

text \<open>\<^verbatim>\<open>Counter.most_common(n)\<close> is \<^verbatim>\<open>heapq.nlargest(n, items, key=itemgetter(1))\<close>:
  for \<open>n\<close> at least the size it slices the sorted entries; otherwise it collects at most
  \<open>n\<close> entries, none when \<open>n \<le> 0\<close>, and returns the \<open>n\<close> largest, entries of equal
  count in the order first encountered.\<close>

definition most_common :: "int \<Rightarrow> 'k counter \<Rightarrow> 'k counter" where
  "most_common n pc =
     (if n \<ge> int (length pc) then take (nat n) (sorted_desc pc)
      else if n \<le> 0 then []
      else take (nat n) (sorted_desc pc))"

text \<open>\<^verbatim>\<open>Series.head(n)\<close> is \<^verbatim>\<open>iloc[:n]\<close>: a negative \<open>n\<close> drops the last \<open>-n\<close> entries.\<close>

definition head :: "int \<Rightarrow> 'a list \<Rightarrow> 'a list" where
  "head n xs =
     (if n < 0 then take (length xs - nat (- n)) xs else take (nat n) xs)"

text \<open>\<^verbatim>\<open>Series.value_counts()\<close>: the number of rows of each distinct value, largest
  count first. pandas leaves the relative order of equal counts to its sorting routine;
  the model lists them in order of first appearance, and no result below depends on it.\<close>

definition value_counts :: "'a list \<Rightarrow> 'a counter" where
  "value_counts xs = sorted_desc (foldl incr [] xs)"

text \<open>Lines 49 to 52.\<close>

definition get_item_stats :: "'t row list \<Rightarrow> string counter" where
  "get_item_stats df = value_counts (map Items df)"

text \<open>Line 82, \<^verbatim>\<open>top_n = st.sidebar.slider(..., 5, 30, 15)\<close>: the slider hands over
  a whole number between 5 and 30, whichever the user picks; 15 is the one it starts
  with. \<open>top_n_value\<close> reads the number, \<open>slider\<close> is the pick of a number in range.\<close>

typedef top_n = "{5 .. 30 :: int}"
  morphisms top_n_value slider
  by (rule exI [of _ 15]) simp

text \<open>Line 111 and line 131, the only uses of \<^verbatim>\<open>top_n\<close> in a ranking. Line 130
  ranks the pairs only when the table is not empty; on the empty table there is no
  ranking, \<^const>\<open>None\<close>.\<close>

definition item_counts :: "'t row list \<Rightarrow> top_n \<Rightarrow> string counter" where
  "item_counts filtered_df top_n =
     head (top_n_value top_n) (value_counts (map Items filtered_df))"

definition top_pairs ::
  "(string \<times> string) counter \<Rightarrow> top_n \<Rightarrow> (string \<times> string) counter option" where
  "top_pairs pair_counter top_n =
     (if pair_counter \<noteq> [] then Some (most_common (top_n_value top_n) pair_counter)
      else None)"

subsection \<open>Metrics and the pivot table\<close>

definition daypart_order :: "string list" where
  "daypart_order = [''Morning'', ''Afternoon'', ''Evening'', ''Night'']"

text \<open>\<^verbatim>\<open>Series.nunique()\<close>.\<close>

definition nunique :: "'a list \<Rightarrow> nat" where
  "nunique xs = length (remdups xs)"

text \<open>Line 100.\<close>

definition avg_basket :: "'t row list \<Rightarrow> py_error + real" where
  "avg_basket filtered_df =
     truediv (int (length filtered_df))
       (max (int (nunique (map TransactionNo filtered_df))) 1)"

text \<open>Lines 245 to 247. \<^verbatim>\<open>groupby(['Daypart', 'Items']).size().unstack(fill_value=0)\<close>
  has one row per segment that occurs among the selected rows and one column per item
  that occurs among them, both in ascending order, with 0 where a combination has no
  row. \<^verbatim>\<open>reindex(order)\<close> then lists one row per label of \<open>order\<close>: the row of that
  label where there is one, and a row of NaN (\<^const>\<open>None\<close> here) where there is none.\<close>

record crosstab =
  columns :: "string list"
  index :: "string list"
  cells :: "int option list list"

definition cross_tab :: "'t row list \<Rightarrow> string list \<Rightarrow> string list \<Rightarrow> crosstab" where
  "cross_tab df top_items_list order =
     (let sel = filter (\<lambda>r. Items r \<in> set top_items_list) df;
          cols = sort (remdups (map Items sel))
      in \<lparr>columns = cols,
          index = order,
          cells =
            map (\<lambda>d.
                if d \<in> set (map Daypart sel)
                then map (\<lambda>i. Some (int (length
                       (filter (\<lambda>r. Daypart r = d \<and> Items r = i) sel)))) cols
                else map (\<lambda>i. None) cols) order\<rparr>)"

definition top_items_list :: "'t row list \<Rightarrow> string list" where
  "top_items_list df = map fst (head 15 (value_counts (map Items df)))"

text \<open>Lines 213 to 222: for each segment in turn, the ten most common pairs of the rows
  of that segment, under the sidebar's item filter (\<^verbatim>\<open>None\<close> when it is empty). The
  model keeps the segment, the pair and its count of each record.\<close>

definition daypart_pairs_data ::
  "('t::linorder) row list \<Rightarrow> string list \<Rightarrow> (string \<times> (string \<times> string) \<times> int) list" where
  "daypart_pairs_data df items_filter =
     concat (map (\<lambda>daypart.
         map (\<lambda>(pair, count). (daypart, pair, count))
           (most_common 10
              (get_item_pairs df (Some [daypart])
                 (if items_filter \<noteq> [] then Some items_filter else None))))
       daypart_order)"

text \<open>Lines 224 and 245 to 247: the heat map is built only when some segment has a pair;
  otherwise the page shows a notice and there is no heat map, \<^const>\<open>None\<close>.\<close>

definition heatmap_data :: "('t::linorder) row list \<Rightarrow> string list \<Rightarrow> crosstab option" where
  "heatmap_data df items_filter =
     (if daypart_pairs_data df items_filter \<noteq> []
      then Some (cross_tab df (top_items_list df) daypart_order)
      else None)"

subsection \<open>Frames with missing cells\<close>

text \<open>
  \<^verbatim>\<open>read_csv\<close> stores an empty field as the missing value NaN, so a row of the frame
  may lack its transaction number, its item or its segment. The definitions above read
  frames in which every cell holds a value; the ones below are the same lines of
  \<^verbatim>\<open>app.py\<close> on frames that may have missing cells, \<^const>\<open>None\<close> being NaN. What
  pandas and Python do with NaN there:
  \<^item> \<^verbatim>\<open>isin\<close> is false on a missing cell (the filter lists hold labels only);
  \<^item> \<^verbatim>\<open>groupby\<close> leaves out the rows whose key, or one of whose keys, is missing;
  \<^item> \<^verbatim>\<open>value_counts\<close> leaves out the missing values;
  \<^item> the item list of a transaction keeps its missing items, all of them the one NaN
    object, so that \<^verbatim>\<open>set\<close> holds NaN once; NaN is a \<^verbatim>\<open>float\<close>, and
    \<^verbatim>\<open>sorted\<close> raises \<^verbatim>\<open>TypeError\<close> when it compares it with a label.
\<close>

record 't na_row =
  TransactionNo_na :: "'t option"
  Items_na :: "string option"
  Daypart_na :: "string option"

text \<open>The present values of a column, in order.\<close>

fun dropna :: "'a option list \<Rightarrow> 'a list" where
  "dropna [] = []"
| "dropna (None # xs) = dropna xs"
| "dropna (Some v # xs) = v # dropna xs"

definition isin :: "string option \<Rightarrow> string list \<Rightarrow> bool" where
  "isin cell labels = (case cell of None \<Rightarrow> False | Some v \<Rightarrow> v \<in> set labels)"

text \<open>Lines 28 to 34.\<close>

definition filter_rows_na ::
  "'t na_row list \<Rightarrow> string list option \<Rightarrow> string list option \<Rightarrow> 't na_row list" where
  "filter_rows_na df daypart_filter items_filter =
     (let filtered_df = df;
          filtered_df =
            (case daypart_filter of
               None \<Rightarrow> filtered_df
             | Some dps \<Rightarrow>
                 if dps \<noteq> [] \<and> length dps > 0
                 then filter (\<lambda>r. isin (Daypart_na r) dps) filtered_df
                 else filtered_df);
          filtered_df =
            (case items_filter of
               None \<Rightarrow> filtered_df
             | Some its \<Rightarrow>
                 if its \<noteq> [] \<and> length its > 0
                 then filter (\<lambda>r. isin (Items_na r) its) filtered_df
                 else filtered_df)
      in filtered_df)"

text \<open>Line 37: the rows without a transaction number are in no group.\<close>

definition groupby_items_na ::
  "('t::linorder) na_row list \<Rightarrow> ('t \<times> string option list) list" where
  "groupby_items_na filtered_df =
     map (\<lambda>t. (t, map Items_na (filter (\<lambda>r. TransactionNo_na r = Some t) filtered_df)))
       (sort (remdups (dropna (map TransactionNo_na filtered_df))))"

text \<open>Lines 42 to 45. With two or more distinct values of which one is NaN, another is a
  label, and \<^verbatim>\<open>sorted\<close> raises; otherwise, with two or more, all are labels.\<close>

definition add_basket_na ::
  "(string \<times> string) counter \<Rightarrow> string option list \<Rightarrow> py_error + (string \<times> string) counter" where
  "add_basket_na pair_counter items =
     (let unique_items = remdups items
      in if length unique_items \<ge> 2
         then (if None \<in> set unique_items then Inl TypeError
               else Inr (foldl incr pair_counter
                      (combinations2 (sort (dropna unique_items)))))
         else Inr pair_counter)"

text \<open>Lines 40 to 47: an exception ends the loop and the call.\<close>

fun count_pairs_na ::
  "(string \<times> string) counter \<Rightarrow> string option list list
     \<Rightarrow> py_error + (string \<times> string) counter" where
  "count_pairs_na pair_counter [] = Inr pair_counter"
| "count_pairs_na pair_counter (items # transactions) =
     (case add_basket_na pair_counter items of
        Inl e \<Rightarrow> Inl e
      | Inr pair_counter' \<Rightarrow> count_pairs_na pair_counter' transactions)"

definition get_item_pairs_na ::
  "('t::linorder) na_row list \<Rightarrow> string list option \<Rightarrow> string list option
     \<Rightarrow> py_error + (string \<times> string) counter" where
  "get_item_pairs_na df daypart_filter items_filter =
     count_pairs_na []
       (map snd (groupby_items_na (filter_rows_na df daypart_filter items_filter)))"

text \<open>Lines 49 to 52.\<close>

definition get_item_stats_na :: "'t na_row list \<Rightarrow> string counter" where
  "get_item_stats_na df = value_counts (dropna (map Items_na df))"

text \<open>Lines 245 to 247: a row whose item is missing is not among the top items, and a
  selected row whose segment is missing is in no group.\<close>

definition cross_tab_na :: "'t na_row list \<Rightarrow> string list \<Rightarrow> string list \<Rightarrow> crosstab" where
  "cross_tab_na df top_items order =
     (let sel = filter (\<lambda>r. isin (Items_na r) top_items) df;
          grouped = filter (\<lambda>r. Daypart_na r \<noteq> None) sel;
          cols = sort (remdups (dropna (map Items_na grouped)))
      in \<lparr>columns = cols,
          index = order,
          cells =
            map (\<lambda>d.
                if Some d \<in> set (map Daypart_na grouped)
                then map (\<lambda>i. Some (int (length
                       (filter (\<lambda>r. Daypart_na r = Some d \<and> Items_na r = Some i) grouped))))
                     cols
                else map (\<lambda>i. None) cols) order\<rparr>)"

definition top_items_list_na :: "'t na_row list \<Rightarrow> string list" where
  "top_items_list_na df = map fst (head 15 (value_counts (dropna (map Items_na df))))"

text \<open>Line 76, \<^verbatim>\<open>sorted(df['Items'].unique())\<close>, the options of the sidebar's item
  filter: \<^verbatim>\<open>unique\<close> keeps NaN, and \<^verbatim>\<open>sorted\<close> raises when NaN stands next to a
  label. An exception ends the run of the page, so that nothing below the line is
  reached.\<close>

definition items_options_na :: "'t na_row list \<Rightarrow> py_error + string option list" where
  "items_options_na df =
     (let unique = remdups (map Items_na df)
      in if length unique \<ge> 2 \<and> None \<in> set unique then Inl TypeError
         else Inr (if None \<in> set unique then unique else map Some (sort (dropna unique))))"

text \<open>Lines 213 to 222, segment by segment; an exception of \<^verbatim>\<open>get_item_pairs\<close> ends
  the run.\<close>

fun daypart_pairs_loop_na ::
  "('t::linorder) na_row list \<Rightarrow> string list \<Rightarrow> string list
     \<Rightarrow> py_error + (string \<times> (string \<times> string) \<times> int) list" where
  "daypart_pairs_loop_na df items_filter [] = Inr []"
| "daypart_pairs_loop_na df items_filter (daypart # dayparts) =
     (case get_item_pairs_na df (Some [daypart])
             (if items_filter \<noteq> [] then Some items_filter else None) of
        Inl e \<Rightarrow> Inl e
      | Inr pairs \<Rightarrow>
          (case daypart_pairs_loop_na df items_filter dayparts of
             Inl e \<Rightarrow> Inl e
           | Inr records \<Rightarrow>
               Inr (map (\<lambda>(pair, count). (daypart, pair, count)) (most_common 10 pairs)
                    @ records)))"

text \<open>The way of the page to its heat map: line 76, then lines 213 to 224 and 245 to 247.
  Between them only the pair counting of line 128 can raise, and it does not once line 76
  has passed.\<close>

definition heatmap_data_na ::
  "('t::linorder) na_row list \<Rightarrow> string list \<Rightarrow> py_error + crosstab option" where
  "heatmap_data_na df items_filter =
     (case items_options_na df of
        Inl e \<Rightarrow> Inl e
      | Inr options \<Rightarrow>
          (case daypart_pairs_loop_na df items_filter daypart_order of
             Inl e \<Rightarrow> Inl e
           | Inr records \<Rightarrow>
               Inr (if records \<noteq> []
                    then Some (cross_tab_na df (top_items_list_na df) daypart_order)
                    else None)))"

text \<open>A row without missing cells, as a row of such a frame.\<close>

definition complete :: "'t row \<Rightarrow> 't na_row" where
  "complete r =
     \<lparr>TransactionNo_na = Some (TransactionNo r), Items_na = Some (Items r),
      Daypart_na = Some (Daypart r)\<rparr>"

subsection \<open>Example data\<close>

text \<open>The five rows of the specification's example, and one transaction that buys
  the same item twice.\<close>

definition example_rows :: "string row list" where
  "example_rows =
     [\<lparr>TransactionNo = ''T1'', Items = ''A'', Daypart = ''Morning''\<rparr>,
      \<lparr>TransactionNo = ''T1'', Items = ''B'', Daypart = ''Morning''\<rparr>,
      \<lparr>TransactionNo = ''T2'', Items = ''A'', Daypart = ''Morning''\<rparr>,
      \<lparr>TransactionNo = ''T2'', Items = ''C'', Daypart = ''Morning''\<rparr>,
      \<lparr>TransactionNo = ''T3'', Items = ''B'', Daypart = ''Evening''\<rparr>]"

definition repeated_rows :: "string row list" where
  "repeated_rows =
     [\<lparr>TransactionNo = ''T1'', Items = ''A'', Daypart = ''Morning''\<rparr>,
      \<lparr>TransactionNo = ''T1'', Items = ''A'', Daypart = ''Morning''\<rparr>,
      \<lparr>TransactionNo = ''T1'', Items = ''B'', Daypart = ''Morning''\<rparr>]"

text \<open>Two transactions whose pairs tie, the later one with the smaller labels.\<close>

definition tie_rows :: "string row list" where
  "tie_rows =
     [\<lparr>TransactionNo = ''T1'', Items = ''C'', Daypart = ''Morning''\<rparr>,
      \<lparr>TransactionNo = ''T1'', Items = ''D'', Daypart = ''Morning''\<rparr>,
      \<lparr>TransactionNo = ''T2'', Items = ''A'', Daypart = ''Morning''\<rparr>,
      \<lparr>TransactionNo = ''T2'', Items = ''B'', Daypart = ''Morning''\<rparr>]"

text \<open>Rows for the pivot table: the morning has a pair, so the heat map is built; the
  most frequent item is not the smallest label, and three of the four segments have no
  row.\<close>

definition pivot_rows :: "string row list" where
  "pivot_rows =
     [\<lparr>TransactionNo = ''T1'', Items = ''B'', Daypart = ''Morning''\<rparr>,
      \<lparr>TransactionNo = ''T1'', Items = ''A'', Daypart = ''Morning''\<rparr>,
      \<lparr>TransactionNo = ''T2'', Items = ''B'', Daypart = ''Morning''\<rparr>]"

text \<open>A frame with a pair in the morning, a row without item, a row without transaction
  number, a row without segment and a row whose segment is none of the four declared
  ones; the same frame without the row that lacks its item; the same frame without these
  four rows; and a transaction with one item missing and one present.\<close>

definition defective_rows :: "string na_row list" where
  "defective_rows =
     [\<lparr>TransactionNo_na = Some ''T1'', Items_na = Some ''A'', Daypart_na = Some ''Morning''\<rparr>,
      \<lparr>TransactionNo_na = Some ''T1'', Items_na = Some ''B'', Daypart_na = Some ''Morning''\<rparr>,
      \<lparr>TransactionNo_na = Some ''T2'', Items_na = None, Daypart_na = Some ''Morning''\<rparr>,
      \<lparr>TransactionNo_na = None, Items_na = Some ''A'', Daypart_na = Some ''Morning''\<rparr>,
      \<lparr>TransactionNo_na = Some ''T3'', Items_na = Some ''B'', Daypart_na = None\<rparr>,
      \<lparr>TransactionNo_na = Some ''T4'', Items_na = Some ''A'', Daypart_na = Some ''Brunch''\<rparr>]"

definition segment_rows :: "string na_row list" where
  "segment_rows =
     [\<lparr>TransactionNo_na = Some ''T1'', Items_na = Some ''A'', Daypart_na = Some ''Morning''\<rparr>,
      \<lparr>TransactionNo_na = Some ''T1'', Items_na = Some ''B'', Daypart_na = Some ''Morning''\<rparr>,
      \<lparr>TransactionNo_na = None, Items_na = Some ''A'', Daypart_na = Some ''Morning''\<rparr>,
      \<lparr>TransactionNo_na = Some ''T3'', Items_na = Some ''B'', Daypart_na = None\<rparr>,
      \<lparr>TransactionNo_na = Some ''T4'', Items_na = Some ''A'', Daypart_na = Some ''Brunch''\<rparr>]"

definition sound_rows :: "string na_row list" where
  "sound_rows =
     [\<lparr>TransactionNo_na = Some ''T1'', Items_na = Some ''A'', Daypart_na = Some ''Morning''\<rparr>,
      \<lparr>TransactionNo_na = Some ''T1'', Items_na = Some ''B'', Daypart_na = Some ''Morning''\<rparr>]"

definition mixed_rows :: "string na_row list" where
  "mixed_rows =
     [\<lparr>TransactionNo_na = Some ''T1'', Items_na = Some ''A'', Daypart_na = Some ''Morning''\<rparr>,
      \<lparr>TransactionNo_na = Some ''T1'', Items_na = None, Daypart_na = Some ''Morning''\<rparr>]"

text \<open>The tie rule as the specification words it, to compare the rankings with: entries
  of equal count appear in ascending order of their keys.\<close>

definition ties_ascending :: "('k::linorder) counter \<Rightarrow> bool" where
  "ties_ascending ranking =
     sorted_wrt (\<lambda>x y. snd x = snd y \<longrightarrow> fst x < fst y) ranking"

section \<open>Counters and combinations\<close>

lemma count_of_Nil: "count_of [] k = 0"
  by (simp add: count_of_def)

lemma count_of_incr: "count_of (incr pc k) k' = count_of pc k' + (if k' = k then 1 else 0)"
  by (induction pc k rule: incr.induct) (auto simp: count_of_def)

lemma keys_incr: "fst ` set (incr pc k) = insert k (fst ` set pc)"
  by (induction pc k rule: incr.induct) auto

lemma distinct_incr: "distinct (map fst pc) \<Longrightarrow> distinct (map fst (incr pc k))"
proof (induction pc k rule: incr.induct)
  case (1 k)
  then show ?case by simp
next
  case (2 k' c kcs k)
  then show ?case using keys_incr [of kcs k] by (auto simp: image_iff)
qed

lemma positive_incr: "\<forall>e\<in>set pc. 1 \<le> snd e \<Longrightarrow> \<forall>e\<in>set (incr pc k). 1 \<le> snd e"
  by (induction pc k rule: incr.induct) auto

lemma count_of_foldl_incr:
  "count_of (foldl incr pc ks) k = count_of pc k + int (count_list ks k)"
  by (induction ks arbitrary: pc) (auto simp: count_of_incr)

lemma keys_foldl_incr: "fst ` set (foldl incr pc ks) = fst ` set pc \<union> set ks"
  by (induction ks arbitrary: pc) (auto simp: keys_incr)

lemma distinct_foldl_incr:
  "distinct (map fst pc) \<Longrightarrow> distinct (map fst (foldl incr pc ks))"
  by (induction ks arbitrary: pc) (auto simp: distinct_incr)

lemma positive_foldl_incr:
  "\<forall>e\<in>set pc. 1 \<le> snd e \<Longrightarrow> \<forall>e\<in>set (foldl incr pc ks). 1 \<le> snd e"
proof (induction ks arbitrary: pc)
  case Nil
  then show ?case by simp
next
  case (Cons k ks)
  from Cons.prems have "\<forall>e\<in>set (incr pc k). 1 \<le> snd e" by (rule positive_incr)
  then show ?case using Cons.IH by simp
qed

lemma set_combinations2:
  "sorted xs \<Longrightarrow> distinct xs \<Longrightarrow>
     set (combinations2 xs) = {(a, b). a \<in> set xs \<and> b \<in> set xs \<and> a < b}"
proof (induction xs)
  case Nil
  then show ?case by simp
next
  case (Cons x xs)
  then have IH: "set (combinations2 xs) = {(a, b). a \<in> set xs \<and> b \<in> set xs \<and> a < b}"
    by simp
  from Cons.prems have lt: "\<forall>y\<in>set xs. x < y" by (auto simp: less_le)
  show ?case unfolding combinations2.simps set_append IH using lt by (auto simp: less_le)
qed

lemma distinct_combinations2: "distinct xs \<Longrightarrow> distinct (combinations2 xs)"
proof (induction xs)
  case Nil
  then show ?case by simp
next
  case (Cons x xs)
  have "set (combinations2 xs) \<subseteq> set xs \<times> set xs" for xs :: "'a list"
    by (induction xs) auto
  then have "\<And>y. (x, y) \<in> set (combinations2 xs) \<Longrightarrow> x \<in> set xs" by blast
  with Cons show ?case by (auto simp: distinct_map inj_on_def)
qed

lemma length_combinations2: "length (combinations2 xs) = length xs choose 2"
  by (induction xs) (auto simp: choose_two numeral_2_eq_2 binomial_Suc_Suc_eq_times)

lemma count_list_distinct:
  "distinct xs \<Longrightarrow> count_list xs x = (if x \<in> set xs then 1 else 0)"
  by (induction xs) auto

lemma set_basket_pairs:
  "set (combinations2 (sort (remdups items))) =
     {(a, b). a \<in> set items \<and> b \<in> set items \<and> a < b}"
  using set_combinations2 [of "sort (remdups items)"] by simp

lemma length_basket_pairs:
  "length (combinations2 (sort (remdups items))) = card (set items) choose 2"
  by (simp add: length_combinations2 length_remdups_card_conv)

lemma basket_pairs_small:
  "length (remdups items) < 2 \<Longrightarrow> combinations2 (sort (remdups items)) = []"
proof -
  assume "length (remdups items) < 2"
  then have "length (combinations2 (sort (remdups items))) = 0"
    by (cases "length (remdups items)") (auto simp: length_combinations2)
  then show ?thesis by simp
qed

lemma add_basket_eq:
  "add_basket pc items = foldl incr pc (combinations2 (sort (remdups items)))"
  by (auto simp: add_basket_def Let_def basket_pairs_small)

lemma count_of_add_basket:
  "count_of (add_basket pc items) k =
     count_of pc k + (if k \<in> set (combinations2 (sort (remdups items))) then 1 else 0)"
  by (simp add: add_basket_eq count_of_foldl_incr count_list_distinct distinct_combinations2)

lemma keys_add_basket:
  "fst ` set (add_basket pc items) =
     fst ` set pc \<union> set (combinations2 (sort (remdups items)))"
  by (simp add: add_basket_eq keys_foldl_incr)

lemma distinct_add_basket:
  "distinct (map fst pc) \<Longrightarrow> distinct (map fst (add_basket pc items))"
  by (simp add: add_basket_eq distinct_foldl_incr)

lemma positive_add_basket:
  "\<forall>e\<in>set pc. 1 \<le> snd e \<Longrightarrow> \<forall>e\<in>set (add_basket pc items). 1 \<le> snd e"
  unfolding add_basket_eq by (rule positive_foldl_incr)

lemma count_of_foldl_add_basket:
  "count_of (foldl add_basket pc bs) k =
     count_of pc k
       + int (length (filter (\<lambda>items. k \<in> set (combinations2 (sort (remdups items)))) bs))"
  by (induction bs arbitrary: pc) (simp_all add: count_of_add_basket)

lemma keys_foldl_add_basket:
  "fst ` set (foldl add_basket pc bs) =
     fst ` set pc \<union> (\<Union>items\<in>set bs. set (combinations2 (sort (remdups items))))"
  by (induction bs arbitrary: pc) (auto simp: keys_add_basket)

lemma distinct_foldl_add_basket:
  "distinct (map fst pc) \<Longrightarrow> distinct (map fst (foldl add_basket pc bs))"
  by (induction bs arbitrary: pc) (simp_all add: distinct_add_basket)

lemma positive_foldl_add_basket:
  "\<forall>e\<in>set pc. 1 \<le> snd e \<Longrightarrow> \<forall>e\<in>set (foldl add_basket pc bs). 1 \<le> snd e"
proof (induction bs arbitrary: pc)
  case Nil
  then show ?case by simp
next
  case (Cons b bs)
  from Cons.prems have "\<forall>e\<in>set (add_basket pc b). 1 \<le> snd e"
    by (rule positive_add_basket)
  then show ?case using Cons.IH by simp
qed

lemma count_of_count_pairs:
  "count_of (count_pairs ts) (a, b) =
     (if a < b
      then int (length (filter (\<lambda>items. a \<in> set items \<and> b \<in> set items) (map snd ts)))
      else 0)"
proof -
  have "(\<lambda>items. (a, b) \<in> set (combinations2 (sort (remdups items)))) =
        (\<lambda>items. a \<in> set items \<and> b \<in> set items \<and> a < b)"
    by (simp add: set_basket_pairs)
  then show ?thesis
    by (simp add: count_pairs_def count_of_foldl_add_basket count_of_Nil)
qed

lemma keys_count_pairs:
  "fst ` set (count_pairs ts) =
     {(a, b). a < b \<and> (\<exists>items\<in>set (map snd ts). a \<in> set items \<and> b \<in> set items)}"
  by (auto simp: count_pairs_def keys_foldl_add_basket set_basket_pairs)

lemma distinct_count_pairs: "distinct (map fst (count_pairs ts))"
  by (simp add: count_pairs_def distinct_foldl_add_basket)

lemma positive_count_pairs: "\<forall>e\<in>set (count_pairs ts). 1 \<le> snd e"
  unfolding count_pairs_def by (rule positive_foldl_add_basket) simp

lemma count_of_entry: "distinct (map fst pc) \<Longrightarrow> (k, c) \<in> set pc \<Longrightarrow> count_of pc k = c"
  by (simp add: count_of_def)

lemma filter_nonempty_iff: "1 \<le> int (length (filter P xs)) \<longleftrightarrow> (\<exists>x\<in>set xs. P x)"
  by (induction xs) auto

section \<open>Filtering and grouping\<close>

lemma filter_rows_eq:
  "filter_rows df daypart_filter items_filter =
     filter (\<lambda>r.
         (case daypart_filter of None \<Rightarrow> True | Some dps \<Rightarrow> dps = [] \<or> Daypart r \<in> set dps)
       \<and> (case items_filter of None \<Rightarrow> True | Some its \<Rightarrow> its = [] \<or> Items r \<in> set its)) df"
  by (auto simp: filter_rows_def split: option.splits intro: filter_cong)

lemma keys_groupby_items:
  "map fst (groupby_items fdf) = sort (remdups (map TransactionNo fdf))"
  by (simp add: groupby_items_def comp_def)

lemma groupby_items_entry:
  "(t, items) \<in> set (groupby_items fdf) \<Longrightarrow>
     items = map Items (filter (\<lambda>r. TransactionNo r = t) fdf) \<and> items \<noteq> []"
  by (auto simp: groupby_items_def filter_empty_conv)

lemma groupby_items_Daypart:
  "groupby_items (map (\<lambda>r. r\<lparr>Daypart := d r\<rparr>) df) = groupby_items df"
proof -
  have "map Items (filter (\<lambda>r. TransactionNo r = t) (map (\<lambda>r. r\<lparr>Daypart := d r\<rparr>) df)) =
        map Items (filter (\<lambda>r. TransactionNo r = t) df)" for t
    by (induction df) auto
  then show ?thesis by (simp add: groupby_items_def comp_def)
qed

lemma filter_rows_no_daypart:
  "filter_rows (map (\<lambda>r. r\<lparr>Daypart := d r\<rparr>) df) None items_filter =
     map (\<lambda>r. r\<lparr>Daypart := d r\<rparr>) (filter_rows df None items_filter)"
  by (auto simp: filter_rows_def filter_map comp_def split: option.splits)

section \<open>Sorting, rankings and value counts\<close>

lemma sorted_sorted_desc: "sorted_wrt (\<lambda>x y. snd y \<le> snd x) (sorted_desc pc)"
proof -
  have "sorted (map (\<lambda>e. - snd e) (sorted_desc pc))"
    unfolding sorted_desc_def by (rule sorted_sort_key)
  then show ?thesis by (simp add: sorted_map)
qed

lemma ties_sorted_desc:
  "filter (\<lambda>e. snd e = c) (sorted_desc pc) = filter (\<lambda>e. snd e = c) pc"
proof -
  have "filter (\<lambda>e. - snd e = - c) (sort_key (\<lambda>e. - snd e) pc) = filter (\<lambda>e. - snd e = - c) pc"
    by (rule sort_key_stable)
  then show ?thesis by (simp add: sorted_desc_def)
qed

lemma most_common_eq:
  "most_common n pc = (if n \<le> 0 then [] else take (nat n) (sorted_desc pc))"
  by (auto simp: most_common_def)

lemma head_eq: "0 \<le> n \<Longrightarrow> head n xs = take (nat n) xs"
  by (simp add: head_def)

lemma keys_sorted_desc:
  assumes "distinct (map fst pc)"
  shows "map_of (sorted_desc pc) = map_of pc"
proof -
  have "distinct (map fst (sorted_desc pc))"
    using assms by (simp add: sorted_desc_def distinct_map)
  moreover have "set (sorted_desc pc) = set pc" by (simp add: sorted_desc_def)
  ultimately show ?thesis using assms by (simp add: map_of_inject_set)
qed

lemma distinct_value_counts: "distinct (map fst (value_counts xs))"
proof -
  have "distinct (map fst (foldl incr [] xs))" by (simp add: distinct_foldl_incr)
  then show ?thesis by (simp add: value_counts_def sorted_desc_def distinct_map)
qed

lemma keys_value_counts: "fst ` set (value_counts xs) = set xs"
  by (simp add: value_counts_def sorted_desc_def keys_foldl_incr)

lemma count_of_value_counts: "count_of (value_counts xs) x = int (count_list xs x)"
proof -
  have "map_of (value_counts xs) = map_of (foldl incr [] xs)"
    unfolding value_counts_def by (rule keys_sorted_desc) (simp add: distinct_foldl_incr)
  then have "count_of (value_counts xs) x = count_of (foldl incr [] xs) x"
    by (simp add: count_of_def)
  then show ?thesis by (simp add: count_of_foldl_incr count_of_Nil)
qed

lemma set_head: "set (head n xs) \<subseteq> set xs"
  by (auto simp: head_def dest: in_set_takeD)

lemma distinct_head: "distinct (map f xs) \<Longrightarrow> distinct (map f (head n xs))"
  by (simp add: head_def take_map [symmetric])

lemma distinct_top_items_list: "distinct (top_items_list df)"
  unfolding top_items_list_def by (rule distinct_head) (rule distinct_value_counts)

lemma set_top_items_list: "set (top_items_list df) \<subseteq> Items ` set df"
proof -
  have "set (top_items_list df) \<subseteq> fst ` set (value_counts (map Items df))"
    using set_head [of 15 "value_counts (map Items df)"] by (auto simp: top_items_list_def)
  then show ?thesis by (simp add: keys_value_counts)
qed

lemma columns_cross_tab:
  "columns (cross_tab df top_items order) =
     sort (remdups (filter (\<lambda>i. i \<in> set top_items) (map Items df)))"
  by (simp add: cross_tab_def Let_def filter_map comp_def)

lemma columns_top_items:
  "columns (cross_tab df (top_items_list df) order) = sort (top_items_list df)"
proof -
  let ?cols = "sort (remdups (filter (\<lambda>i. i \<in> set (top_items_list df)) (map Items df)))"
  have "set ?cols = set (top_items_list df)"
    using set_top_items_list [of df] by auto
  moreover have "sorted ?cols" "distinct ?cols" by simp_all
  moreover have "sorted (sort (top_items_list df))" "distinct (sort (top_items_list df))"
    by (simp_all add: distinct_top_items_list)
  ultimately have "?cols = sort (top_items_list df)"
    by (intro sorted_distinct_set_unique) simp_all
  then show ?thesis by (simp add: columns_cross_tab)
qed

section \<open>The order of the pair table\<close>

lemma keys_list_incr:
  "map fst (incr pc k) = (if k \<in> fst ` set pc then map fst pc else map fst pc @ [k])"
  by (induction pc k rule: incr.induct) (auto simp: image_iff)

lemma first_occurrences_snoc:
  "rev (remdups (rev (ks @ [k]))) =
     (if k \<in> set ks then rev (remdups (rev ks)) else rev (remdups (rev ks)) @ [k])"
  by simp

lemma keys_list_foldl_incr: "map fst (foldl incr [] ks) = rev (remdups (rev ks))"
proof (induction ks rule: rev_induct)
  case Nil
  then show ?case by simp
next
  case (snoc k ks)
  have "fst ` set (foldl incr [] ks) = set ks" by (simp add: keys_foldl_incr)
  with snoc show ?case by (simp add: keys_list_incr)
qed

lemma foldl_add_basket_concat:
  "foldl add_basket pc bs =
     foldl incr pc (concat (map (\<lambda>items. combinations2 (sort (remdups items))) bs))"
  by (induction bs arbitrary: pc) (simp_all add: add_basket_eq)

lemma keys_list_count_pairs:
  "map fst (count_pairs ts) =
     rev (remdups (rev (concat
       (map (\<lambda>items. combinations2 (sort (remdups items))) (map snd ts)))))"
  by (simp add: count_pairs_def foldl_add_basket_concat keys_list_foldl_incr)

lemma sorted_combinations2:
  "sorted xs \<Longrightarrow> distinct xs \<Longrightarrow> sorted (combinations2 xs)"
proof (induction xs)
  case Nil
  then show ?case by simp
next
  case (Cons x xs)
  then have IH: "sorted (combinations2 xs)" by simp
  from Cons.prems have lt: "\<forall>y\<in>set xs. x < y" by (auto simp: less_le)
  from Cons.prems have "sorted xs" by simp
  then have s1: "sorted (map (Pair x) xs)"
    by (simp add: sorted_map sorted_wrt_iff_nth_less sorted_iff_nth_mono less_eq_prod_def)
  have sub: "set (combinations2 xs) \<subseteq> set xs \<times> set xs" for xs :: "'a list"
    by (induction xs) auto
  have "\<forall>p\<in>set (map (Pair x) xs). \<forall>q\<in>set (combinations2 xs). p \<le> q"
    using lt sub [of xs] by (auto simp: less_eq_prod_def)
  with s1 IH show ?case by (simp add: sorted_append)
qed

section \<open>The guard of the heat map\<close>

lemma most_common_empty_iff: "0 < n \<Longrightarrow> most_common n pc = [] \<longleftrightarrow> pc = []"
proof -
  assume n: "0 < n"
  have "length (most_common n pc) = min (nat n) (length pc)"
    using n by (simp add: most_common_eq sorted_desc_def)
  moreover have "min (nat n) (length pc) = 0 \<longleftrightarrow> length pc = 0"
    using n by (cases pc) auto
  ultimately have "length (most_common n pc) = 0 \<longleftrightarrow> length pc = 0"
    by simp
  then show ?thesis by (simp only: length_0_conv)
qed

lemma daypart_pairs_data_empty_iff:
  "daypart_pairs_data df items_filter = [] \<longleftrightarrow>
     (\<forall>d \<in> set daypart_order.
        get_item_pairs df (Some [d]) (if items_filter \<noteq> [] then Some items_filter else None) = [])"
  by (simp add: daypart_pairs_data_def most_common_empty_iff)

section \<open>Frames with missing cells\<close>

lemma set_dropna: "set (dropna xs) = {v. Some v \<in> set xs}"
  by (induction xs rule: dropna.induct) auto

lemma dropna_map_Some: "dropna (map Some xs) = xs"
  by (induction xs) auto

lemma dropna_map_Some_comp: "dropna (map (\<lambda>x. Some (f x)) xs) = map f xs"
  by (induction xs) auto

lemma dropna_remdups: "dropna (remdups xs) = remdups (dropna xs)"
  by (induction xs rule: dropna.induct) (auto simp: set_dropna)

lemma no_None_map_Some: "None \<notin> set xs \<Longrightarrow> map Some (dropna xs) = xs"
  by (induction xs rule: dropna.induct) auto

lemma dropna_Nil_iff: "dropna xs = [] \<longleftrightarrow> set xs \<subseteq> {None}"
  by (induction xs rule: dropna.induct) auto

lemma count_list_dropna:
  "count_list (dropna (map f xs)) v = length (filter (\<lambda>r. f r = Some v) xs)"
proof (induction xs)
  case Nil
  then show ?case by simp
next
  case (Cons r xs)
  then show ?case by (cases "f r") auto
qed

lemma length_remdups_two:
  "a \<in> set xs \<Longrightarrow> b \<in> set xs \<Longrightarrow> a \<noteq> b \<Longrightarrow> 2 \<le> length (remdups xs)"
proof -
  assume a: "a \<in> set xs" and b: "b \<in> set xs" and ab: "a \<noteq> b"
  then have "{a, b} \<subseteq> set xs" by simp
  then have "card {a, b} \<le> card (set xs)" by (intro card_mono) simp_all
  with ab show ?thesis by (simp add: length_remdups_card_conv)
qed

lemma add_basket_na_eq:
  "add_basket_na pc items =
     (if None \<in> set items \<and> dropna items \<noteq> [] then Inl TypeError
      else Inr (add_basket pc (dropna items)))"
proof (cases "None \<in> set items")
  case False
  then have "length (remdups items) = length (remdups (dropna items))"
    by (metis dropna_remdups length_map no_None_map_Some set_remdups)
  with False show ?thesis
    by (simp add: add_basket_na_def add_basket_def Let_def dropna_remdups)
next
  case True
  show ?thesis
  proof (cases "dropna items = []")
    case True
    then have "set items \<subseteq> {None}" by (simp add: dropna_Nil_iff)
    then have "card (set items) \<le> card {None :: string option}" by (intro card_mono) simp_all
    then have "length (remdups items) < 2" by (simp add: length_remdups_card_conv)
    with True show ?thesis by (simp add: add_basket_na_def add_basket_def Let_def)
  next
    case False
    then obtain v where "v \<in> set (dropna items)" by (cases "dropna items") auto
    then have "Some v \<in> set items" by (simp add: set_dropna)
    with True have "2 \<le> length (remdups items)"
      by (intro length_remdups_two [of None _ "Some v"]) simp_all
    with True False show ?thesis by (simp add: add_basket_na_def Let_def)
  qed
qed

lemma count_pairs_na_eq:
  "count_pairs_na pc bs =
     (if \<exists>items \<in> set bs. None \<in> set items \<and> dropna items \<noteq> [] then Inl TypeError
      else Inr (foldl add_basket pc (map dropna bs)))"
  by (induction bs arbitrary: pc) (auto simp: add_basket_na_eq)

lemma filter_rows_na_eq:
  "filter_rows_na df daypart_filter items_filter =
     filter (\<lambda>r.
         (case daypart_filter of None \<Rightarrow> True | Some dps \<Rightarrow> dps = [] \<or> isin (Daypart_na r) dps)
       \<and> (case items_filter of None \<Rightarrow> True | Some its \<Rightarrow> its = [] \<or> isin (Items_na r) its)) df"
  by (auto simp: filter_rows_na_def split: option.splits intro: filter_cong)

lemma filter_rows_na_filter:
  "filter_rows_na (filter P df) daypart_filter items_filter =
     filter P (filter_rows_na df daypart_filter items_filter)"
  unfolding filter_rows_na_eq filter_filter by (rule filter_cong) auto

lemma dropna_filter_present:
  "dropna (map f (filter (\<lambda>r. f r \<noteq> None) xs)) = dropna (map f xs)"
proof (induction xs)
  case Nil
  then show ?case by simp
next
  case (Cons r xs)
  then show ?case by (cases "f r") auto
qed

lemma groupby_items_na_present:
  "groupby_items_na (filter (\<lambda>r. TransactionNo_na r \<noteq> None) fdf) = groupby_items_na fdf"
proof -
  have "filter (\<lambda>r. TransactionNo_na r = Some t)
          (filter (\<lambda>r. TransactionNo_na r \<noteq> None) fdf) =
        filter (\<lambda>r. TransactionNo_na r = Some t) fdf" for t
    unfolding filter_filter by (rule filter_cong) auto
  then show ?thesis
    by (simp only: groupby_items_na_def dropna_filter_present)
qed

lemma groupby_items_na_Daypart:
  "groupby_items_na (map (\<lambda>r. r\<lparr>Daypart_na := d r\<rparr>) df) = groupby_items_na df"
proof -
  have "map Items_na (filter (\<lambda>r. TransactionNo_na r = t) (map (\<lambda>r. r\<lparr>Daypart_na := d r\<rparr>) df)) =
        map Items_na (filter (\<lambda>r. TransactionNo_na r = t) df)" for t
    by (induction df) auto
  then show ?thesis by (simp add: groupby_items_na_def comp_def)
qed

lemma filter_rows_na_no_daypart:
  "filter_rows_na (map (\<lambda>r. r\<lparr>Daypart_na := d r\<rparr>) df) None items_filter =
     map (\<lambda>r. r\<lparr>Daypart_na := d r\<rparr>) (filter_rows_na df None items_filter)"
  by (auto simp: filter_rows_na_def filter_map comp_def split: option.splits)

lemma filter_rows_na_complete:
  "filter_rows_na (map complete df) daypart_filter items_filter =
     map complete (filter_rows df daypart_filter items_filter)"
  by (auto simp: filter_rows_na_def filter_rows_def filter_map comp_def complete_def isin_def
      split: option.splits)

lemma groupby_items_na_complete:
  "groupby_items_na (map complete fdf) =
     map (\<lambda>e. (fst e, map Some (snd e))) (groupby_items fdf)"
proof -
  have "map Items_na (filter (\<lambda>r. TransactionNo_na r = Some t) (map complete fdf)) =
        map Some (map Items (filter (\<lambda>r. TransactionNo r = t) fdf))" for t
    by (induction fdf) (auto simp: complete_def)
  moreover have "dropna (map TransactionNo_na (map complete fdf)) = map TransactionNo fdf"
    by (induction fdf) (auto simp: complete_def)
  ultimately show ?thesis
    by (simp add: groupby_items_na_def groupby_items_def comp_def)
qed

lemma get_item_pairs_na_complete:
  "get_item_pairs_na (map complete df) daypart_filter items_filter =
     Inr (get_item_pairs df daypart_filter items_filter)"
  by (simp add: get_item_pairs_na_def get_item_pairs_def count_pairs_def
      filter_rows_na_complete groupby_items_na_complete count_pairs_na_eq comp_def
      dropna_map_Some)

lemma get_item_stats_na_complete: "get_item_stats_na (map complete df) = get_item_stats df"
proof -
  have "dropna (map Items_na (map complete df)) = map Items df"
    by (induction df) (auto simp: complete_def)
  then show ?thesis by (simp add: get_item_stats_na_def get_item_stats_def)
qed

lemma top_items_list_na_complete: "top_items_list_na (map complete df) = top_items_list df"
proof -
  have "dropna (map Items_na (map complete df)) = map Items df"
    by (induction df) (auto simp: complete_def)
  then show ?thesis by (simp add: top_items_list_na_def top_items_list_def)
qed

lemma cross_tab_na_complete:
  "cross_tab_na (map complete df) top_items order = cross_tab df top_items order"
proof -
  let ?sel = "filter (\<lambda>r. Items r \<in> set top_items) df"
  have sel: "filter (\<lambda>r. Daypart_na r \<noteq> None)
        (filter (\<lambda>r. isin (Items_na r) top_items) (map complete df)) = map complete ?sel"
    by (induction df) (auto simp: complete_def isin_def)
  have items: "dropna (map Items_na (map complete ?sel)) = map Items ?sel"
    by (induction df) (auto simp: complete_def)
  have dp: "Some d \<in> set (map Daypart_na (map complete ?sel)) \<longleftrightarrow> d \<in> set (map Daypart ?sel)"
    for d by (auto simp: complete_def)
  have cnt: "length (filter (\<lambda>r. Daypart_na r = Some d \<and> Items_na r = Some i) (map complete ?sel)) =
        length (filter (\<lambda>r. Daypart r = d \<and> Items r = i) ?sel)" for d i
    by (induction df) (auto simp: complete_def)
  show ?thesis
    unfolding cross_tab_na_def cross_tab_def Let_def sel items
    by (simp only: dp cnt)
qed

lemma daypart_pairs_loop_na_complete:
  "daypart_pairs_loop_na (map complete df) items_filter dayparts =
     Inr (concat (map (\<lambda>daypart.
         map (\<lambda>(pair, count). (daypart, pair, count))
           (most_common 10
              (get_item_pairs df (Some [daypart])
                 (if items_filter \<noteq> [] then Some items_filter else None))))
       dayparts))"
  by (induction dayparts) (simp_all add: get_item_pairs_na_complete)

lemma items_options_na_eq:
  "items_options_na df =
     (if None \<in> set (map Items_na df) \<and> dropna (map Items_na df) \<noteq> [] then Inl TypeError
      else Inr (if None \<in> set (map Items_na df) then remdups (map Items_na df)
                else map Some (sort (dropna (remdups (map Items_na df))))))"
proof (cases "None \<in> set (map Items_na df) \<and> dropna (map Items_na df) \<noteq> []")
  case True
  then obtain v where "v \<in> set (dropna (map Items_na df))"
    by (cases "dropna (map Items_na df)") auto
  then have "Some v \<in> set (map Items_na df)" by (simp add: set_dropna)
  with True have "2 \<le> length (remdups (map Items_na df))"
    by (intro length_remdups_two [of None _ "Some v"]) simp_all
  with True show ?thesis by (simp add: items_options_na_def Let_def)
next
  case False
  show ?thesis
  proof (cases "None \<in> set (map Items_na df)")
    case True
    with False have "set (map Items_na df) \<subseteq> {None}" by (simp add: dropna_Nil_iff)
    then have "card (set (map Items_na df)) \<le> card {None :: string option}"
      by (intro card_mono) simp_all
    then have "length (remdups (map Items_na df)) < 2"
      by (simp add: length_remdups_card_conv)
    with True False show ?thesis by (simp add: items_options_na_def Let_def)
  next
    case no: False
    then show ?thesis by (simp add: items_options_na_def Let_def)
  qed
qed

lemma items_options_na_complete:
  "items_options_na (map complete df) = Inr (map Some (sort (remdups (map Items df))))"
proof -
  have m: "map Items_na (map complete df) = map Some (map Items df)"
    by (simp add: complete_def)
  have n: "None \<notin> set (map Some (map Items df))" by auto
  have d: "dropna (map Some (map Items df)) = map Items df" by (rule dropna_map_Some)
  show ?thesis
    unfolding items_options_na_eq m dropna_remdups d using n by simp
qed

lemma heatmap_data_na_complete:
  "heatmap_data_na (map complete df) items_filter = Inr (heatmap_data df items_filter)"
  by (simp add: heatmap_data_na_def heatmap_data_def daypart_pairs_data_def
      items_options_na_complete
      daypart_pairs_loop_na_complete cross_tab_na_complete top_items_list_na_complete)

lemma heatmap_data_na_mixed:
  "\<exists>r \<in> set df. Items_na r = None \<Longrightarrow> \<exists>r \<in> set df. Items_na r \<noteq> None \<Longrightarrow>
     heatmap_data_na df items_filter = Inl TypeError"
proof -
  assume "\<exists>r \<in> set df. Items_na r = None" and "\<exists>r \<in> set df. Items_na r \<noteq> None"
  then have "None \<in> set (map Items_na df)" and "\<not> set (map Items_na df) \<subseteq> {None}"
    by force+
  then have "items_options_na df = Inl TypeError"
    by (simp add: items_options_na_eq dropna_Nil_iff)
  then show ?thesis by (simp add: heatmap_data_na_def)
qed

lemma heatmap_data_na_Some:
  "heatmap_data_na df items_filter = Inr (Some ct) \<Longrightarrow>
     ct = cross_tab_na df (top_items_list_na df) daypart_order"
  by (auto simp: heatmap_data_na_def split: sum.splits if_splits)

lemma count_of_get_item_stats_na:
  "count_of (get_item_stats_na df) x = int (length (filter (\<lambda>r. Items_na r = Some x) df))"
  by (simp add: get_item_stats_na_def count_of_value_counts count_list_dropna)

lemma get_item_pairs_na_eq:
  "get_item_pairs_na df daypart_filter items_filter =
     (if \<exists>e \<in> set (groupby_items_na (filter_rows_na df daypart_filter items_filter)).
           None \<in> set (snd e) \<and> dropna (snd e) \<noteq> []
      then Inl TypeError
      else Inr (count_pairs (map (\<lambda>e. (fst e, dropna (snd e)))
             (groupby_items_na (filter_rows_na df daypart_filter items_filter)))))"
  by (simp add: get_item_pairs_na_def count_pairs_na_eq count_pairs_def comp_def)

lemma cross_tab_na_cells:
  assumes j: "j < length order"
    and i: "i < length (columns (cross_tab_na df top_items order))"
    and ex: "\<exists>r \<in> set df. Daypart_na r = Some (order ! j) \<and> isin (Items_na r) top_items"
  shows "cells (cross_tab_na df top_items order) ! j ! i =
     Some (int (length (filter
       (\<lambda>r. Daypart_na r = Some (order ! j)
            \<and> Items_na r = Some (columns (cross_tab_na df top_items order) ! i)) df)))"
proof -
  let ?ct = "cross_tab_na df top_items order"
  let ?grouped = "filter (\<lambda>r. Daypart_na r \<noteq> None) (filter (\<lambda>r. isin (Items_na r) top_items) df)"
  let ?cols = "sort (remdups (dropna (map Items_na ?grouped)))"
  have cols: "columns ?ct = ?cols" by (simp add: cross_tab_na_def Let_def)
  from ex have d: "Some (order ! j) \<in> set (map Daypart_na ?grouped)" by force
  from i cols have "?cols ! i \<in> set ?cols" by (metis nth_mem)
  then have "Some (?cols ! i) \<in> set (map Items_na ?grouped)" by (simp add: set_dropna)
  then have top: "isin (Some (?cols ! i)) top_items" by auto
  have "filter (\<lambda>r. Daypart_na r = Some (order ! j) \<and> Items_na r = Some (?cols ! i)) ?grouped =
        filter (\<lambda>r. Daypart_na r = Some (order ! j) \<and> Items_na r = Some (?cols ! i)) df"
    unfolding filter_filter using top by (intro filter_cong) auto
  moreover have "cells ?ct ! j ! i =
      Some (int (length (filter
        (\<lambda>r. Daypart_na r = Some (order ! j) \<and> Items_na r = Some (?cols ! i)) ?grouped)))"
    using j i d cols by (simp add: cross_tab_na_def Let_def)
  ultimately show ?thesis using cols by simp
qed

lemma columns_cross_tab_na:
  "columns (cross_tab_na df top_items order) =
     sort (remdups (dropna (map Items_na
       (filter (\<lambda>r. isin (Items_na r) top_items \<and> Daypart_na r \<noteq> None) df))))"
proof -
  have "filter (\<lambda>r. Daypart_na r \<noteq> None) (filter (\<lambda>r. isin (Items_na r) top_items) df) =
      filter (\<lambda>r. isin (Items_na r) top_items \<and> Daypart_na r \<noteq> None) df"
    unfolding filter_filter by (rule filter_cong) auto
  then show ?thesis by (simp only: cross_tab_na_def Let_def crosstab.simps)
qed

text \<open>Once line 76 has passed, no call of \<^verbatim>\<open>get_item_pairs\<close> on the frame raises.\<close>

lemma get_item_pairs_na_after_options:
  assumes "items_options_na df = Inr opts"
  shows "\<exists>pc. get_item_pairs_na df daypart_filter items_filter = Inr pc"
proof -
  from assms have nm: "\<not> (None \<in> set (map Items_na df) \<and> dropna (map Items_na df) \<noteq> [])"
    by (auto simp: items_options_na_eq split: if_splits)
  have "\<not> (\<exists>e \<in> set (groupby_items_na (filter_rows_na df daypart_filter items_filter)).
           None \<in> set (snd e) \<and> dropna (snd e) \<noteq> [])"
  proof
    assume "\<exists>e \<in> set (groupby_items_na (filter_rows_na df daypart_filter items_filter)).
           None \<in> set (snd e) \<and> dropna (snd e) \<noteq> []"
    then obtain e where e: "e \<in> set (groupby_items_na (filter_rows_na df daypart_filter items_filter))"
      and n: "None \<in> set (snd e)" and d: "dropna (snd e) \<noteq> []" by blast
    from e have sub: "set (snd e) \<subseteq> set (map Items_na df)"
      by (auto simp: groupby_items_na_def filter_rows_na_eq)
    from d obtain v where "v \<in> set (dropna (snd e))" by (cases "dropna (snd e)") auto
    then have "Some v \<in> set (snd e)" by (simp add: set_dropna)
    with sub have "Some v \<in> set (map Items_na df)" by blast
    then have "v \<in> set (dropna (map Items_na df))" by (simp add: set_dropna)
    then have "dropna (map Items_na df) \<noteq> []" by auto
    with n sub nm show False by blast
  qed
  then show ?thesis by (simp add: get_item_pairs_na_eq)
qed

section \<open>Pair counting\<close>

text \<open>
  Claim C1. Pair counting adds exactly 1 per basket to each canonical pair of the basket:
  the count of \<open>(a, b)\<close> in the table is the number of filtered transactions whose items
  include both \<open>a\<close> and \<open>b\<close> when \<open>a < b\<close>, and 0 otherwise, however many rows of
  either item a transaction has. One basket raises the count of each of its pairs by 1;
  its pairs are the pairs \<open>(x, y)\<close> of its distinct items with \<open>x < y\<close>, each listed
  once, \<open>C(k, 2)\<close> of them for \<open>k\<close> distinct items; a basket with fewer than two
  distinct items leaves the table as it is.
\<close>

theorem pair_counting:
  "count_of (get_item_pairs df daypart_filter items_filter) (a, b) =
     (if a < b
      then int (length (filter (\<lambda>items. a \<in> set items \<and> b \<in> set items)
             (map snd (groupby_items (filter_rows df daypart_filter items_filter)))))
      else 0)
   \<and> count_of (add_basket pair_counter items) k =
       count_of pair_counter k
         + (if k \<in> set (combinations2 (sort (remdups items))) then 1 else 0)
   \<and> set (combinations2 (sort (remdups items))) =
       {(x, y). x \<in> set items \<and> y \<in> set items \<and> x < y}
   \<and> distinct (combinations2 (sort (remdups items)))
   \<and> length (combinations2 (sort (remdups items))) = card (set items) choose 2
   \<and> (card (set items) < 2 \<longrightarrow> add_basket pair_counter items = pair_counter)"
proof -
  have "card (set items) < 2 \<longrightarrow> add_basket pair_counter items = pair_counter"
    by (simp add: add_basket_def Let_def length_remdups_card_conv)
  then show ?thesis
    by (simp add: get_item_pairs_def count_of_count_pairs count_of_add_basket
        set_basket_pairs length_basket_pairs distinct_combinations2)
qed

theorem pair_counting_witness:
  "count_of (get_item_pairs example_rows None None) (''A'', ''B'') = 1
   \<and> count_of (get_item_pairs example_rows None None) (''B'', ''A'') = 0
   \<and> count_of (add_basket [] [''B'', ''A'', ''B'']) (''A'', ''B'') = 1
   \<and> card (set [''B'']) < 2 \<and> add_basket [((''A'', ''B''), 1)] [''B''] = [((''A'', ''B''), 1)]"
  using pair_counting [of example_rows None None "''A''" "''B''" "[]" "[''B'', ''A'', ''B'']" "(''A'', ''B'')"]
    pair_counting [of example_rows None None "''B''" "''A''" "[((''A'', ''B''), 1)]" "[''B'']" "(''A'', ''B'')"]
  by (simp add: example_rows_def groupby_items_def filter_rows_def count_of_def)

text \<open>
  Claim C6. Every key of the pair table is a pair of two different labels, the first
  strictly below the second, and every count is at most the number of baskets that
  the filters leave.
\<close>

theorem pair_table_invariant:
  "\<forall>e \<in> set (get_item_pairs df daypart_filter items_filter).
     fst (fst e) < snd (fst e)
     \<and> fst (fst e) \<noteq> snd (fst e)
     \<and> snd e \<le> int (length (groupby_items (filter_rows df daypart_filter items_filter)))"
proof
  fix e
  let ?ts = "groupby_items (filter_rows df daypart_filter items_filter)"
  assume e: "e \<in> set (get_item_pairs df daypart_filter items_filter)"
  obtain a b c where abc: "e = ((a, b), c)" by (metis prod.collapse)
  from e abc have mem: "((a, b), c) \<in> set (count_pairs ?ts)"
    by (simp add: get_item_pairs_def)
  then have "(a, b) \<in> fst ` set (count_pairs ?ts)" by force
  then have lt: "a < b" by (simp add: keys_count_pairs)
  from mem have "count_of (count_pairs ?ts) (a, b) = c"
    by (rule count_of_entry [OF distinct_count_pairs])
  with lt have "c = int (length (filter (\<lambda>items. a \<in> set items \<and> b \<in> set items) (map snd ?ts)))"
    by (simp add: count_of_count_pairs)
  also have "\<dots> \<le> int (length (map snd ?ts))"
    unfolding of_nat_le_iff by (rule length_filter_le)
  finally have "c \<le> int (length ?ts)" by simp
  with lt abc show "fst (fst e) < snd (fst e) \<and> fst (fst e) \<noteq> snd (fst e) \<and> snd e \<le> int (length ?ts)"
    by simp
qed

theorem pair_table_invariant_witness:
  "((''A'', ''B''), 1) \<in> set (get_item_pairs example_rows None None)
   \<and> ''A'' < ''B'' \<and> ''A'' \<noteq> ''B''
   \<and> (1::int) \<le> int (length (groupby_items (filter_rows example_rows None None)))"
proof -
  have mem: "((''A'', ''B''), 1) \<in> set (get_item_pairs example_rows None None)"
    by (simp add: example_rows_def get_item_pairs_def count_pairs_def groupby_items_def
        filter_rows_def add_basket_def)
  from pair_table_invariant [of example_rows None None, rule_format, OF mem] mem
  show ?thesis by simp
qed

text \<open>
  Claim C10. Every entry of the pair table has a count of at least 1, and a pair is a key
  of the table exactly when its two labels, in ascending order, occur together in at
  least one filtered basket, that is exactly when its count is at least 1.
\<close>

theorem pair_counts_positive:
  "(\<forall>e \<in> set (get_item_pairs df daypart_filter items_filter). 1 \<le> snd e)
   \<and> ((a, b) \<in> fst ` set (get_item_pairs df daypart_filter items_filter) \<longleftrightarrow>
        a < b \<and> (\<exists>items \<in> set (map snd (groupby_items
                    (filter_rows df daypart_filter items_filter))).
                   a \<in> set items \<and> b \<in> set items))
   \<and> ((a, b) \<in> fst ` set (get_item_pairs df daypart_filter items_filter) \<longleftrightarrow>
        1 \<le> count_of (get_item_pairs df daypart_filter items_filter) (a, b))"
proof -
  let ?ts = "groupby_items (filter_rows df daypart_filter items_filter)"
  have pos: "\<forall>e \<in> set (count_pairs ?ts). 1 \<le> snd e" by (rule positive_count_pairs)
  have keys: "(a, b) \<in> fst ` set (count_pairs ?ts) \<longleftrightarrow>
        a < b \<and> (\<exists>items \<in> set (map snd ?ts). a \<in> set items \<and> b \<in> set items)"
    by (simp add: keys_count_pairs)
  have "1 \<le> count_of (count_pairs ?ts) (a, b) \<longleftrightarrow>
        a < b \<and> (\<exists>items \<in> set (map snd ?ts). a \<in> set items \<and> b \<in> set items)"
    unfolding count_of_count_pairs using filter_nonempty_iff [of "\<lambda>items. a \<in> set items \<and> b \<in> set items" "map snd ?ts"]
    by auto
  with pos keys show ?thesis by (simp add: get_item_pairs_def)
qed

theorem pair_counts_positive_witness:
  "((''A'', ''C''), 1) \<in> set (get_item_pairs example_rows None None)
   \<and> (1::int) \<le> 1
   \<and> (''B'', ''C'') \<notin> fst ` set (get_item_pairs example_rows None None)
   \<and> \<not> 1 \<le> count_of (get_item_pairs example_rows None None) (''B'', ''C'')"
proof -
  have mem: "((''A'', ''C''), 1) \<in> set (get_item_pairs example_rows None None)"
    by (simp add: example_rows_def get_item_pairs_def count_pairs_def groupby_items_def
        filter_rows_def add_basket_def)
  have no: "\<not> (\<exists>items \<in> set (map snd (groupby_items (filter_rows example_rows None None))).
               ''B'' \<in> set items \<and> ''C'' \<in> set items)"
    by (simp add: example_rows_def groupby_items_def filter_rows_def)
  from pair_counts_positive [of example_rows None None "''B''" "''C''"] mem no
  show ?thesis by blast
qed

section \<open>The filter and grouping stage\<close>

text \<open>
  Claim C2. The filter keeps exactly the rows whose segment is in the segment filter and
  whose item is in the item filter, where an absent or empty filter restricts nothing.
  Grouping maps each transaction number of a surviving row, once, to the items of its
  surviving rows, whose distinct items form the basket; a transaction with no surviving
  row has no entry, no entry is empty, and when no row survives the grouping and the
  pair table are empty.
\<close>

theorem filter_and_group:
  "filter_rows df daypart_filter items_filter =
     filter (\<lambda>r.
         (case daypart_filter of None \<Rightarrow> True | Some dps \<Rightarrow> dps = [] \<or> Daypart r \<in> set dps)
       \<and> (case items_filter of None \<Rightarrow> True | Some its \<Rightarrow> its = [] \<or> Items r \<in> set its)) df
   \<and> map_of (groupby_items (filter_rows df daypart_filter items_filter)) t =
       (if t \<in> TransactionNo ` set (filter_rows df daypart_filter items_filter)
        then Some (map Items (filter (\<lambda>r. TransactionNo r = t)
               (filter_rows df daypart_filter items_filter)))
        else None)
   \<and> distinct (map fst (groupby_items (filter_rows df daypart_filter items_filter)))
   \<and> (\<forall>e \<in> set (groupby_items (filter_rows df daypart_filter items_filter)).
        snd e \<noteq> []
        \<and> set (remdups (snd e)) =
            Items ` {r \<in> set (filter_rows df daypart_filter items_filter).
                       TransactionNo r = fst e})
   \<and> (filter_rows df daypart_filter items_filter = [] \<longrightarrow>
        groupby_items (filter_rows df daypart_filter items_filter) = []
        \<and> get_item_pairs df daypart_filter items_filter = [])"
proof -
  let ?fdf = "filter_rows df daypart_filter items_filter"
  have m: "map_of (groupby_items ?fdf) t =
       (if t \<in> TransactionNo ` set ?fdf
        then Some (map Items (filter (\<lambda>r. TransactionNo r = t) ?fdf)) else None)"
    unfolding groupby_items_def by (auto simp: map_of_map_restrict restrict_map_def)
  have d: "distinct (map fst (groupby_items ?fdf))"
    by (simp add: keys_groupby_items)
  have e: "\<forall>e \<in> set (groupby_items ?fdf).
        snd e \<noteq> [] \<and> set (remdups (snd e)) = Items ` {r \<in> set ?fdf. TransactionNo r = fst e}"
    by (auto simp: groupby_items_def filter_empty_conv)
  have z: "?fdf = [] \<longrightarrow> groupby_items ?fdf = [] \<and> get_item_pairs df daypart_filter items_filter = []"
    by (simp add: groupby_items_def get_item_pairs_def count_pairs_def)
  show ?thesis using filter_rows_eq [of df daypart_filter items_filter] m d e z by blast
qed

theorem filter_and_group_witness:
  "filter_rows example_rows (Some [''Evening'']) (Some []) =
     [\<lparr>TransactionNo = ''T3'', Items = ''B'', Daypart = ''Evening''\<rparr>]
   \<and> map_of (groupby_items (filter_rows example_rows (Some [''Evening'']) (Some []))) ''T3''
       = Some [''B'']
   \<and> map_of (groupby_items (filter_rows example_rows (Some [''Evening'']) (Some []))) ''T1''
       = None
   \<and> (''T3'', [''B'']) \<in> set (groupby_items
         (filter_rows example_rows (Some [''Evening'']) (Some [])))
   \<and> filter_rows example_rows (Some [''Night'']) None = []
   \<and> groupby_items (filter_rows example_rows (Some [''Night'']) None) = []
   \<and> get_item_pairs example_rows (Some [''Night'']) None = []"
  using filter_and_group [of example_rows "Some [''Evening'']" "Some []" "''T3''"]
    filter_and_group [of example_rows "Some [''Evening'']" "Some []" "''T1''"]
    filter_and_group [of example_rows "Some [''Night'']" None "''T1''"]
  by (simp add: example_rows_def filter_rows_def groupby_items_def)

section \<open>The average basket size\<close>


text \<open>Without the guard \<^verbatim>\<open>max(..., 1)\<close> the division of line 100 raises on a frame
  without rows.\<close>

lemma unguarded_quotient:
  "truediv (int (length ([] :: 't row list)))
     (int (nunique (map TransactionNo ([] :: 't row list)))) = Inl ZeroDivisionError"
  by (simp add: truediv_def nunique_def)



section \<open>The example of the specification\<close>

text \<open>
  Claim C7. On the five example rows without filters, item counting gives A 2, B 2 and
  C 1, pair counting gives (A, B) 1 and (A, C) 1, the basket of T3 being the single item
  B, which leaves the table unchanged, and the average basket size is 5/3. A transaction
  with rows A, A, B gives the item counts A 2 and B 1 and the single pair (A, B) with
  count 1.
\<close>

theorem specification_example:
  "set (get_item_stats example_rows) = {(''A'', 2), (''B'', 2), (''C'', 1)}
   \<and> length (get_item_stats example_rows) = 3
   \<and> get_item_pairs example_rows None None = [((''A'', ''B''), 1), ((''A'', ''C''), 1)]
   \<and> map snd (groupby_items (filter_rows example_rows None None)) =
       [[''A'', ''B''], [''A'', ''C''], [''B'']]
   \<and> add_basket [((''A'', ''B''), 1), ((''A'', ''C''), 1)] [''B''] =
       [((''A'', ''B''), 1), ((''A'', ''C''), 1)]
   \<and> avg_basket example_rows = Inr (5 / 3)
   \<and> get_item_stats repeated_rows = [(''A'', 2), (''B'', 1)]
   \<and> get_item_pairs repeated_rows None None = [((''A'', ''B''), 1)]"
  by (simp add: example_rows_def repeated_rows_def get_item_stats_def value_counts_def
      sorted_desc_def get_item_pairs_def count_pairs_def groupby_items_def filter_rows_def
      add_basket_def avg_basket_def nunique_def truediv_def insert_commute)

section \<open>Top-N rankings\<close>

text \<open>
  Claim C3, as amended. For \<open>n \<ge> 0\<close> both rankings are sorted by count, largest first;
  \<open>n = 0\<close> gives the empty sequence and an \<open>n\<close> of at least the table's size gives all
  entries; the slider's value is such an \<open>n\<close>. In the pair ranking, entries of equal
  count appear in the order in which the table holds them, not in the order of their
  keys: for every count, the ranked entries of that count are an initial part of the
  table's entries of that count. The table holds each pair at the place of its first
  insertion: the transactions are visited in ascending order of their numbers, and each
  inserts the pairs of its basket in ascending order, by first label and then by second.
\<close>

theorem ranking_order:
  "0 \<le> n \<Longrightarrow>
     sorted_wrt (\<lambda>x y. snd y \<le> snd x) (most_common n pc)
   \<and> prefix (filter (\<lambda>e. snd e = c) (most_common n pc)) (filter (\<lambda>e. snd e = c) pc)
   \<and> most_common 0 pc = []
   \<and> (int (length pc) \<le> n \<longrightarrow>
        set (most_common n pc) = set pc \<and> length (most_common n pc) = length pc
        \<and> filter (\<lambda>e. snd e = c) (most_common n pc) = filter (\<lambda>e. snd e = c) pc)
   \<and> sorted_wrt (\<lambda>x y. snd y \<le> snd x) (head n (value_counts xs))
   \<and> head 0 (value_counts xs) = []
   \<and> (int (length (value_counts xs)) \<le> n \<longrightarrow> head n (value_counts xs) = value_counts xs)
   \<and> map fst (get_item_pairs df daypart_filter items_filter) =
       rev (remdups (rev (concat
         (map (\<lambda>items. combinations2 (sort (remdups items)))
            (map snd (groupby_items (filter_rows df daypart_filter items_filter)))))))
   \<and> sorted (map fst (groupby_items (filter_rows df daypart_filter items_filter)))
   \<and> sorted (combinations2 (sort (remdups items)))
   \<and> 0 \<le> top_n_value k
   \<and> (pair_counter \<noteq> [] \<longrightarrow>
        top_pairs pair_counter k = Some (most_common (top_n_value k) pair_counter))
   \<and> item_counts filtered_df k =
       head (top_n_value k) (value_counts (map Items filtered_df))"
proof -
  assume n: "0 \<le> n"
  have s: "sorted_wrt (\<lambda>x y. snd y \<le> snd x) (most_common n pc)"
    by (simp add: most_common_eq sorted_wrt_take sorted_sorted_desc)
  have "prefix (most_common n pc) (sorted_desc pc)"
    by (simp add: most_common_eq take_is_prefix)
  then have "prefix (filter (\<lambda>e. snd e = c) (most_common n pc))
      (filter (\<lambda>e. snd e = c) (sorted_desc pc))"
    by (rule filter_mono_prefix)
  then have p: "prefix (filter (\<lambda>e. snd e = c) (most_common n pc)) (filter (\<lambda>e. snd e = c) pc)"
    by (simp add: ties_sorted_desc)
  have z: "most_common 0 pc = []" by (simp add: most_common_eq)
  have a: "int (length pc) \<le> n \<longrightarrow>
        set (most_common n pc) = set pc \<and> length (most_common n pc) = length pc
        \<and> filter (\<lambda>e. snd e = c) (most_common n pc) = filter (\<lambda>e. snd e = c) pc"
  proof
    assume "int (length pc) \<le> n"
    then have "most_common n pc = sorted_desc pc"
      by (simp add: most_common_def sorted_desc_def)
    then show "set (most_common n pc) = set pc \<and> length (most_common n pc) = length pc
        \<and> filter (\<lambda>e. snd e = c) (most_common n pc) = filter (\<lambda>e. snd e = c) pc"
      by (simp add: ties_sorted_desc) (simp add: sorted_desc_def)
  qed
  have hs: "sorted_wrt (\<lambda>x y. snd y \<le> snd x) (head n (value_counts xs))"
    using n by (simp add: head_eq value_counts_def sorted_wrt_take sorted_sorted_desc)
  have hz: "head 0 (value_counts xs) = []" by (simp add: head_def)
  have ha: "int (length (value_counts xs)) \<le> n \<longrightarrow> head n (value_counts xs) = value_counts xs"
    using n by (simp add: head_eq)
  have ko: "map fst (get_item_pairs df daypart_filter items_filter) =
       rev (remdups (rev (concat
         (map (\<lambda>items. combinations2 (sort (remdups items)))
            (map snd (groupby_items (filter_rows df daypart_filter items_filter)))))))"
    unfolding get_item_pairs_def by (rule keys_list_count_pairs)
  have go: "sorted (map fst (groupby_items (filter_rows df daypart_filter items_filter)))"
    by (simp add: keys_groupby_items)
  have co: "sorted (combinations2 (sort (remdups items)))"
    by (rule sorted_combinations2) simp_all
  have k: "0 \<le> top_n_value k" using top_n_value [of k] by simp
  have tp: "pair_counter \<noteq> [] \<longrightarrow>
        top_pairs pair_counter k = Some (most_common (top_n_value k) pair_counter)"
    by (simp add: top_pairs_def)
  have ic: "item_counts filtered_df k =
       head (top_n_value k) (value_counts (map Items filtered_df))"
    by (simp add: item_counts_def)
  from s p z a hs hz ha ko go co k tp ic show ?thesis by blast
qed

theorem ranking_order_witness:
  "(0::int) \<le> 5
   \<and> get_item_pairs tie_rows (Some daypart_order) None =
       [((''C'', ''D''), 1), ((''A'', ''B''), 1)]
   \<and> most_common 5 (get_item_pairs tie_rows (Some daypart_order) None) =
       [((''C'', ''D''), 1), ((''A'', ''B''), 1)]
   \<and> int (length (get_item_pairs tie_rows (Some daypart_order) None)) \<le> 5
   \<and> top_pairs (get_item_pairs tie_rows (Some daypart_order) None) (slider 5) =
       Some [((''C'', ''D''), 1), ((''A'', ''B''), 1)]
   \<and> sorted [(''A'', ''B''), (''A'', ''C''), (''B'', ''C'')]
   \<and> combinations2 (sort (remdups [''C'', ''A'', ''B'', ''A''])) =
       [(''A'', ''B''), (''A'', ''C''), (''B'', ''C'')]"
proof -
  have pc: "get_item_pairs tie_rows (Some daypart_order) None =
      [((''C'', ''D''), 1), ((''A'', ''B''), 1)]"
    by (simp add: tie_rows_def daypart_order_def get_item_pairs_def count_pairs_def
        groupby_items_def filter_rows_def add_basket_def)
  have m: "most_common 5 [((''C'', ''D''), 1), ((''A'', ''B''), 1)] =
      [((''C'', ''D''), 1), ((''A'', ''B''), 1)]"
    by (simp add: most_common_def sorted_desc_def)
  have v: "top_n_value (slider 5) = 5" by (simp add: slider_inverse)
  have cb: "combinations2 (sort (remdups [''C'', ''A'', ''B'', ''A''])) =
       [(''A'', ''B''), (''A'', ''C''), (''B'', ''C'')]"
    by simp
  from ranking_order [of 5 "get_item_pairs tie_rows (Some daypart_order) None" 1
      "[] :: string list" tie_rows "Some daypart_order" None "[''C'', ''A'', ''B'', ''A'']"
      "slider 5" "get_item_pairs tie_rows (Some daypart_order) None" tie_rows]
    pc m v cb
  show ?thesis by simp
qed

text \<open>
  Claim C3 as the specification states it fails, with the slider at 5 and the default
  segment filter: the pair of the first transaction is inserted first and ranked first,
  although the later pair of equal count has the smaller key.
\<close>

theorem ranking_ties_counterexample:
  "get_item_pairs tie_rows (Some daypart_order) None =
     [((''C'', ''D''), 1), ((''A'', ''B''), 1)]
   \<and> top_pairs (get_item_pairs tie_rows (Some daypart_order) None) (slider 5) =
       Some [((''C'', ''D''), 1), ((''A'', ''B''), 1)]
   \<and> \<not> ties_ascending [((''C'', ''D''), 1 :: int), ((''A'', ''B''), 1)]"
  by (simp add: tie_rows_def daypart_order_def get_item_pairs_def count_pairs_def
      groupby_items_def filter_rows_def add_basket_def top_pairs_def most_common_def
      sorted_desc_def ties_ascending_def slider_inverse)

section \<open>The pivot table\<close>

text \<open>
  Claim C4, as amended. The pivot table has one row per segment of the supplied order, in
  that order, each as long as the list of columns. The columns are the distinct items of
  the data that are among the supplied top items, in ascending order of their labels. In
  the row of a segment that has at least one row among the top items, each cell is the
  number of rows of that segment and that column's item. The heat map is built exactly
  when some segment has a pair under the item filter; it is then the pivot table of the
  data's top items and the four declared segments, and its columns are the top items
  sorted.
\<close>

theorem cross_tab_shape:
  "index (cross_tab df top_items order) = order
   \<and> length (cells (cross_tab df top_items order)) = length order
   \<and> columns (cross_tab df top_items order) =
       sort (remdups (filter (\<lambda>i. i \<in> set top_items) (map Items df)))
   \<and> (\<forall>j < length order.
        length (cells (cross_tab df top_items order) ! j) =
          length (columns (cross_tab df top_items order))
        \<and> ((\<exists>r \<in> set df. Daypart r = order ! j \<and> Items r \<in> set top_items) \<longrightarrow>
            (\<forall>i < length (columns (cross_tab df top_items order)).
               cells (cross_tab df top_items order) ! j ! i =
                 Some (int (length (filter
                   (\<lambda>r. Daypart r = order ! j
                        \<and> Items r = columns (cross_tab df top_items order) ! i) df))))))
   \<and> (heatmap_data df items_filter \<noteq> None \<longleftrightarrow>
        (\<exists>d \<in> set daypart_order.
           get_item_pairs df (Some [d])
             (if items_filter \<noteq> [] then Some items_filter else None) \<noteq> []))
   \<and> (\<forall>ct. heatmap_data df items_filter = Some ct \<longrightarrow>
        ct = cross_tab df (top_items_list df) daypart_order
        \<and> index ct = daypart_order
        \<and> columns ct = sort (top_items_list df))"
proof -
  let ?ct = "cross_tab df top_items order"
  let ?sel = "filter (\<lambda>r. Items r \<in> set top_items) df"
  let ?cols = "sort (remdups (map Items ?sel))"
  have cols: "columns ?ct = ?cols" by (simp add: cross_tab_def Let_def)
  have rows: "\<forall>j < length order.
        length (cells ?ct ! j) = length (columns ?ct)
        \<and> ((\<exists>r \<in> set df. Daypart r = order ! j \<and> Items r \<in> set top_items) \<longrightarrow>
            (\<forall>i < length (columns ?ct).
               cells ?ct ! j ! i =
                 Some (int (length (filter
                   (\<lambda>r. Daypart r = order ! j \<and> Items r = columns ?ct ! i) df)))))"
  proof (intro allI impI conjI)
    fix j assume j: "j < length order"
    show "length (cells ?ct ! j) = length (columns ?ct)"
      using j by (simp add: cross_tab_def Let_def)
  next
    fix j i
    assume j: "j < length order"
      and ex: "\<exists>r \<in> set df. Daypart r = order ! j \<and> Items r \<in> set top_items"
      and i: "i < length (columns ?ct)"
    from ex have d: "order ! j \<in> set (map Daypart ?sel)" by force
    from i cols have "?cols ! i \<in> set ?cols" by (metis nth_mem)
    then have top: "?cols ! i \<in> set top_items" by auto
    have "filter (\<lambda>r. Daypart r = order ! j \<and> Items r = ?cols ! i) ?sel =
          filter (\<lambda>r. Daypart r = order ! j \<and> Items r = ?cols ! i) df"
      using top by (auto intro: filter_cong)
    moreover have "cells ?ct ! j ! i =
        Some (int (length (filter (\<lambda>r. Daypart r = order ! j \<and> Items r = ?cols ! i) ?sel)))"
      using j i d cols by (simp add: cross_tab_def Let_def)
    ultimately show "cells ?ct ! j ! i =
        Some (int (length (filter
          (\<lambda>r. Daypart r = order ! j \<and> Items r = columns ?ct ! i) df)))"
      using cols by simp
  qed
  have shape: "index ?ct = order" "length (cells ?ct) = length order"
    by (simp_all add: cross_tab_def Let_def)
  have guard: "heatmap_data df items_filter \<noteq> None \<longleftrightarrow>
        (\<exists>d \<in> set daypart_order.
           get_item_pairs df (Some [d])
             (if items_filter \<noteq> [] then Some items_filter else None) \<noteq> [])"
    using daypart_pairs_data_empty_iff [of df items_filter]
    by (auto simp: heatmap_data_def)
  have "index (cross_tab df (top_items_list df) daypart_order) = daypart_order"
    by (simp add: cross_tab_def Let_def)
  then have heat: "\<forall>ct. heatmap_data df items_filter = Some ct \<longrightarrow>
        ct = cross_tab df (top_items_list df) daypart_order
        \<and> index ct = daypart_order
        \<and> columns ct = sort (top_items_list df)"
    by (auto simp: heatmap_data_def columns_top_items split: if_splits)
  from shape rows columns_cross_tab [of df top_items order] guard heat
  show ?thesis by blast
qed

theorem cross_tab_shape_witness:
  "get_item_pairs pivot_rows (Some [''Morning'']) None = [((''A'', ''B''), 1)]
   \<and> heatmap_data pivot_rows [] =
       Some \<lparr>columns = [''A'', ''B''],
             index = [''Morning'', ''Afternoon'', ''Evening'', ''Night''],
             cells = [[Some 1, Some 2], [None, None], [None, None], [None, None]]\<rparr>
   \<and> (0::nat) < length daypart_order
   \<and> (\<exists>r \<in> set pivot_rows. Daypart r = daypart_order ! 0 \<and> Items r \<in> set [''B'', ''A''])
   \<and> cells (cross_tab pivot_rows [''B'', ''A''] daypart_order) ! 0 = [Some 1, Some 2]"
proof -
  have p: "get_item_pairs pivot_rows (Some [''Morning'']) None = [((''A'', ''B''), 1)]"
    by (simp add: pivot_rows_def get_item_pairs_def count_pairs_def groupby_items_def
        filter_rows_def add_basket_def)
  then have g: "\<exists>d \<in> set daypart_order. get_item_pairs pivot_rows (Some [d])
      (if ([] :: string list) \<noteq> [] then Some [] else None) \<noteq> []"
    by (simp add: daypart_order_def)
  have t: "top_items_list pivot_rows = [''B'', ''A'']"
    by (simp add: top_items_list_def pivot_rows_def value_counts_def sorted_desc_def head_def)
  have ex: "\<exists>r \<in> set pivot_rows. Daypart r = daypart_order ! 0 \<and> Items r \<in> set [''B'', ''A'']"
    by (simp add: pivot_rows_def daypart_order_def)
  have l: "(0::nat) < length daypart_order" by (simp add: daypart_order_def)
  have ct: "cross_tab pivot_rows [''B'', ''A''] daypart_order =
      \<lparr>columns = [''A'', ''B''],
       index = [''Morning'', ''Afternoon'', ''Evening'', ''Night''],
       cells = [[Some 1, Some 2], [None, None], [None, None], [None, None]]\<rparr>"
    by (simp add: cross_tab_def Let_def pivot_rows_def daypart_order_def)
  from cross_tab_shape [of pivot_rows "[''B'', ''A'']" daypart_order "[]"] p g t ex l ct
  show ?thesis by auto
qed

text \<open>
  Claim C4 as the specification states it fails: the morning has a pair, so the heat map
  is built; the top items are B, A by frequency, the columns are A, B; the three segments
  without rows hold no zeros.
\<close>

theorem cross_tab_counterexample:
  "top_items_list pivot_rows = [''B'', ''A'']
   \<and> get_item_pairs pivot_rows (Some [''Morning'']) None = [((''A'', ''B''), 1)]
   \<and> heatmap_data pivot_rows [] =
       Some \<lparr>columns = [''A'', ''B''],
             index = [''Morning'', ''Afternoon'', ''Evening'', ''Night''],
             cells = [[Some 1, Some 2], [None, None], [None, None], [None, None]]\<rparr>"
proof -
  have p: "get_item_pairs pivot_rows (Some [''Morning'']) None = [((''A'', ''B''), 1)]"
    by (simp add: pivot_rows_def get_item_pairs_def count_pairs_def groupby_items_def
        filter_rows_def add_basket_def)
  then have d: "daypart_pairs_data pivot_rows [] \<noteq> []"
    by (simp add: daypart_pairs_data_def daypart_order_def most_common_def sorted_desc_def)
  have t: "top_items_list pivot_rows = [''B'', ''A'']"
    by (simp add: top_items_list_def pivot_rows_def value_counts_def sorted_desc_def head_def)
  have ct: "cross_tab pivot_rows [''B'', ''A''] daypart_order =
      \<lparr>columns = [''A'', ''B''],
       index = [''Morning'', ''Afternoon'', ''Evening'', ''Night''],
       cells = [[Some 1, Some 2], [None, None], [None, None], [None, None]]\<rparr>"
    by (simp add: cross_tab_def Let_def pivot_rows_def daypart_order_def)
  from p d t ct show ?thesis by (simp add: heatmap_data_def)
qed

section \<open>Rows with a missing field or an undeclared segment\<close>

text \<open>
  Claim C9, as amended. A row with a missing field or an undeclared segment is not
  rejected as invalid by any counting operation.
  \<^item> Item counting leaves out the rows whose item is missing and counts every other row,
    whatever its transaction number and its segment, missing, undeclared or not.
  \<^item> Pair counting leaves out the rows whose transaction number is missing and, under a
    non-empty segment filter, the rows whose segment is missing or not listed; without a
    segment filter it does not depend on the segments. If a transaction is left with a
    missing item next to a present one, the call ends in \<^verbatim>\<open>TypeError\<close>; otherwise it
    returns the pair table of the baskets without their missing items.
  \<^item> The pivot table has the rows of the supplied segment order; its columns are the
    present items, among the top items, of the rows whose segment is present; a cell of
    a segment that has a row among the top items is the number of rows with that segment
    and that item, so that rows whose item or segment is missing, or whose segment is not
    in the order, are in no cell.
  \<^item> On a frame without missing cells these are item counting, pair counting, the pivot
    table and the heat map as defined for such frames.
  \<^item> The page reaches its heat map only on a frame in which no missing item stands next
    to a present one; on any other frame its run ends in \<^verbatim>\<open>TypeError\<close> at line 76.
    A heat map that is built is the pivot table of the frame.
\<close>

theorem no_validation:
  "count_of (get_item_stats_na df) x = int (length (filter (\<lambda>r. Items_na r = Some x) df))
   \<and> get_item_pairs_na df daypart_filter items_filter =
       get_item_pairs_na (filter (\<lambda>r. TransactionNo_na r \<noteq> None) df)
         daypart_filter items_filter
   \<and> (dps \<noteq> [] \<longrightarrow>
        get_item_pairs_na df (Some dps) items_filter =
          get_item_pairs_na (filter (\<lambda>r. isin (Daypart_na r) dps) df) None items_filter)
   \<and> get_item_pairs_na (map (\<lambda>r. r\<lparr>Daypart_na := d r\<rparr>) df) None items_filter =
       get_item_pairs_na df None items_filter
   \<and> get_item_pairs_na df daypart_filter items_filter =
       (if \<exists>e \<in> set (groupby_items_na (filter_rows_na df daypart_filter items_filter)).
             None \<in> set (snd e) \<and> dropna (snd e) \<noteq> []
        then Inl TypeError
        else Inr (count_pairs (map (\<lambda>e. (fst e, dropna (snd e)))
               (groupby_items_na (filter_rows_na df daypart_filter items_filter)))))
   \<and> index (cross_tab_na df top_items order) = order
   \<and> columns (cross_tab_na df top_items order) =
       sort (remdups (dropna (map Items_na
         (filter (\<lambda>r. isin (Items_na r) top_items \<and> Daypart_na r \<noteq> None) df))))
   \<and> (\<forall>j < length order. \<forall>i < length (columns (cross_tab_na df top_items order)).
        (\<exists>r \<in> set df. Daypart_na r = Some (order ! j) \<and> isin (Items_na r) top_items) \<longrightarrow>
        cells (cross_tab_na df top_items order) ! j ! i =
          Some (int (length (filter
            (\<lambda>r. Daypart_na r = Some (order ! j)
                 \<and> Items_na r = Some (columns (cross_tab_na df top_items order) ! i)) df))))
   \<and> get_item_stats_na (map complete cdf) = get_item_stats cdf
   \<and> get_item_pairs_na (map complete cdf) daypart_filter items_filter =
       Inr (get_item_pairs cdf daypart_filter items_filter)
   \<and> cross_tab_na (map complete cdf) top_items order = cross_tab cdf top_items order
   \<and> heatmap_data_na (map complete cdf) items = Inr (heatmap_data cdf items)
   \<and> ((\<exists>r \<in> set df. Items_na r = None) \<and> (\<exists>r \<in> set df. Items_na r \<noteq> None) \<longrightarrow>
        heatmap_data_na df items = Inl TypeError)
   \<and> (\<forall>ct. heatmap_data_na df items = Inr (Some ct) \<longrightarrow>
        ct = cross_tab_na df (top_items_list_na df) daypart_order)"
proof -
  have h1: "(\<exists>r \<in> set df. Items_na r = None) \<and> (\<exists>r \<in> set df. Items_na r \<noteq> None) \<longrightarrow>
        heatmap_data_na df items = Inl TypeError"
    using heatmap_data_na_mixed [of df items] by blast
  have h2: "\<forall>ct. heatmap_data_na df items = Inr (Some ct) \<longrightarrow>
        ct = cross_tab_na df (top_items_list_na df) daypart_order"
    using heatmap_data_na_Some [of df items] by blast
  have p1: "get_item_pairs_na df daypart_filter items_filter =
       get_item_pairs_na (filter (\<lambda>r. TransactionNo_na r \<noteq> None) df)
         daypart_filter items_filter"
    by (simp only: get_item_pairs_na_def filter_rows_na_filter groupby_items_na_present)
  have "dps \<noteq> [] \<longrightarrow> filter_rows_na df (Some dps) items_filter =
          filter_rows_na (filter (\<lambda>r. isin (Daypart_na r) dps) df) None items_filter"
    by (simp add: filter_rows_na_def)
  then have p2: "dps \<noteq> [] \<longrightarrow>
        get_item_pairs_na df (Some dps) items_filter =
          get_item_pairs_na (filter (\<lambda>r. isin (Daypart_na r) dps) df) None items_filter"
    by (simp add: get_item_pairs_na_def)
  have p3: "get_item_pairs_na (map (\<lambda>r. r\<lparr>Daypart_na := d r\<rparr>) df) None items_filter =
       get_item_pairs_na df None items_filter"
    by (simp add: get_item_pairs_na_def filter_rows_na_no_daypart groupby_items_na_Daypart)
  have x1: "index (cross_tab_na df top_items order) = order"
    by (simp add: cross_tab_na_def Let_def)
  have x3: "\<forall>j < length order. \<forall>i < length (columns (cross_tab_na df top_items order)).
        (\<exists>r \<in> set df. Daypart_na r = Some (order ! j) \<and> isin (Items_na r) top_items) \<longrightarrow>
        cells (cross_tab_na df top_items order) ! j ! i =
          Some (int (length (filter
            (\<lambda>r. Daypart_na r = Some (order ! j)
                 \<and> Items_na r = Some (columns (cross_tab_na df top_items order) ! i)) df)))"
    by (intro allI impI cross_tab_na_cells)
  from count_of_get_item_stats_na [of df x] p1 p2 p3
    get_item_pairs_na_eq [of df daypart_filter items_filter]
    x1 columns_cross_tab_na [of df top_items order] x3
    get_item_stats_na_complete [of cdf]
    get_item_pairs_na_complete [of cdf daypart_filter items_filter]
    cross_tab_na_complete [of cdf top_items order]
    heatmap_data_na_complete [of cdf items] h1 h2
  show ?thesis by (intro conjI)
qed

theorem no_validation_witness:
  "count_of (get_item_stats_na defective_rows) ''A'' = 3
   \<and> daypart_order \<noteq> []
   \<and> get_item_pairs_na defective_rows (Some daypart_order) None = Inr [((''A'', ''B''), 1)]
   \<and> (\<exists>e \<in> set (groupby_items_na (filter_rows_na mixed_rows (Some daypart_order) None)).
        None \<in> set (snd e) \<and> dropna (snd e) \<noteq> [])
   \<and> get_item_pairs_na mixed_rows (Some daypart_order) None = Inl TypeError
   \<and> (0::nat) < length daypart_order
   \<and> columns (cross_tab_na defective_rows [''A'', ''B''] daypart_order) = [''A'', ''B'']
   \<and> (\<exists>r \<in> set defective_rows.
        Daypart_na r = Some (daypart_order ! 0) \<and> isin (Items_na r) [''A'', ''B''])
   \<and> cells (cross_tab_na defective_rows [''A'', ''B''] daypart_order) ! 0 ! 0 = Some 2
   \<and> (\<exists>r \<in> set defective_rows. Items_na r = None)
   \<and> (\<exists>r \<in> set defective_rows. Items_na r \<noteq> None)
   \<and> heatmap_data_na defective_rows [] = Inl TypeError"
proof -
  have mi: "(\<exists>r \<in> set defective_rows. Items_na r = None)
      \<and> (\<exists>r \<in> set defective_rows. Items_na r \<noteq> None)"
    by (simp add: defective_rows_def)
  have g: "groupby_items_na (filter_rows_na defective_rows (Some daypart_order) None) =
      [(''T1'', [Some ''A'', Some ''B'']), (''T2'', [None])]"
    by (simp add: defective_rows_def daypart_order_def groupby_items_na_def
        filter_rows_na_def isin_def)
  have m: "groupby_items_na (filter_rows_na mixed_rows (Some daypart_order) None) =
      [(''T1'', [Some ''A'', None])]"
    by (simp add: mixed_rows_def daypart_order_def groupby_items_na_def
        filter_rows_na_def isin_def)
  have c: "count_pairs [(''T1'', [''A'', ''B'']), (''T2'', [])] = [((''A'', ''B''), 1)]"
    by (simp add: count_pairs_def add_basket_def)
  have cols: "columns (cross_tab_na defective_rows [''A'', ''B''] daypart_order) = [''A'', ''B'']"
    by (simp add: cross_tab_na_def Let_def defective_rows_def isin_def)
  have ex: "\<exists>r \<in> set defective_rows.
        Daypart_na r = Some (daypart_order ! 0) \<and> isin (Items_na r) [''A'', ''B'']"
    by (simp add: defective_rows_def daypart_order_def isin_def)
  have l: "(0::nat) < length daypart_order" by (simp add: daypart_order_def)
  have n: "length (filter (\<lambda>r. Daypart_na r = Some (daypart_order ! 0) \<and> Items_na r = Some ''A'')
      defective_rows) = 2"
    by (simp add: defective_rows_def daypart_order_def)
  have nA: "length (filter (\<lambda>r. Items_na r = Some ''A'') defective_rows) = 3"
    by (simp add: defective_rows_def)
  have d: "daypart_order \<noteq> []" by (simp add: daypart_order_def)
  note t1 = no_validation [of defective_rows "''A''" "Some daypart_order" None daypart_order
      Daypart_na "[''A'', ''B'']" daypart_order "[] :: string row list" "[]"]
  note t2 = no_validation [of mixed_rows "''A''" "Some daypart_order" None daypart_order
      Daypart_na "[''A'', ''B'']" daypart_order "[] :: string row list" "[]"]
  from t1 nA have s: "count_of (get_item_stats_na defective_rows) ''A'' = 3" by simp
  from t1 [THEN conjunct2, THEN conjunct2, THEN conjunct2, THEN conjunct2, THEN conjunct1] g c
  have p: "get_item_pairs_na defective_rows (Some daypart_order) None =
      Inr [((''A'', ''B''), 1)]"
    by simp
  from m have me: "\<exists>e \<in> set (groupby_items_na (filter_rows_na mixed_rows (Some daypart_order) None)).
        None \<in> set (snd e) \<and> dropna (snd e) \<noteq> []"
    by simp
  with t2 [THEN conjunct2, THEN conjunct2, THEN conjunct2, THEN conjunct2, THEN conjunct1]
  have q: "get_item_pairs_na mixed_rows (Some daypart_order) None = Inl TypeError"
    by simp
  from t1 l cols ex n have x:
    "cells (cross_tab_na defective_rows [''A'', ''B''] daypart_order) ! 0 ! 0 = Some 2"
    by simp
  from t1 mi have hm: "heatmap_data_na defective_rows [] = Inl TypeError" by blast
  from s d p me q l cols ex x mi hm show ?thesis by (intro conjI) simp_all
qed

text \<open>
  Claim C9 as the specification states it fails, on a frame of six rows of which one lacks
  its item, one its transaction number, one its segment and one has the undeclared
  segment Brunch. Item counting returns the counts of five rows, the row without item left
  out. Pair counting under the default segment filter returns the table of the two sound
  rows alone. On the five rows that have an item the heat map is built, and its cells hold
  three rows: the rows without segment and of the undeclared segment are left out.
\<close>

theorem validation_counterexample:
  "get_item_stats_na defective_rows = [(''A'', 3), (''B'', 2)]
   \<and> length defective_rows = 6
   \<and> get_item_pairs_na defective_rows (Some daypart_order) None = Inr [((''A'', ''B''), 1)]
   \<and> get_item_pairs_na sound_rows (Some daypart_order) None = Inr [((''A'', ''B''), 1)]
   \<and> length segment_rows = 5
   \<and> top_items_list_na segment_rows = [''A'', ''B'']
   \<and> heatmap_data_na segment_rows [] =
       Inr (Some \<lparr>columns = [''A'', ''B''],
                  index = [''Morning'', ''Afternoon'', ''Evening'', ''Night''],
                  cells = [[Some 2, Some 1], [None, None], [None, None], [None, None]]\<rparr>)"
proof -
  have s: "get_item_stats_na defective_rows = [(''A'', 3), (''B'', 2)]"
    by (simp add: defective_rows_def get_item_stats_na_def value_counts_def sorted_desc_def)
  have pd: "get_item_pairs_na defective_rows (Some daypart_order) None = Inr [((''A'', ''B''), 1)]"
    by (simp add: defective_rows_def daypart_order_def get_item_pairs_na_def
        groupby_items_na_def filter_rows_na_def isin_def add_basket_na_def)
  have ps: "get_item_pairs_na sound_rows (Some daypart_order) None = Inr [((''A'', ''B''), 1)]"
    by (simp add: sound_rows_def daypart_order_def get_item_pairs_na_def
        groupby_items_na_def filter_rows_na_def isin_def add_basket_na_def)
  have t: "top_items_list_na segment_rows = [''A'', ''B'']"
    by (simp add: top_items_list_na_def segment_rows_def value_counts_def sorted_desc_def
        head_def)
  have h: "heatmap_data_na segment_rows [] =
       Inr (Some \<lparr>columns = [''A'', ''B''],
                  index = [''Morning'', ''Afternoon'', ''Evening'', ''Night''],
                  cells = [[Some 2, Some 1], [None, None], [None, None], [None, None]]\<rparr>)"
    by code_simp
  have l: "length defective_rows = 6" by (simp add: defective_rows_def)
  have l': "length segment_rows = 5" by (simp add: segment_rows_def)
  from s l pd ps l' t h show ?thesis by (intro conjI)
qed

end
